theory Spec2Isabelle
  imports Complex_Main
begin

section \<open>WebXR camera animation importer/exporter: pose arithmetic\<close>

text \<open>
  The addon (\<^verbatim>\<open>blender_addon/camera_animation_importer.py\<close>) computes with the host's
  \<^verbatim>\<open>mathutils.Vector\<close> and \<^verbatim>\<open>mathutils.Quaternion\<close> values. Numbers are modelled
  as exact reals: the rounding of the host's binary floating point is not part of this
  model, so every statement below is about the arithmetic the source text denotes.
  A quaternion is stored scalar first, \<open>(w, x, y, z)\<close>, as \<^verbatim>\<open>Quaternion((w, x, y, z))\<close> is.
\<close>

datatype Vector = Vector (vx: real) (vy: real) (vz: real)

datatype Quaternion = Quaternion (qw: real) (qx: real) (qy: real) (qz: real)

text \<open>
  Modelled from the spec: the operators of the host's \<^verbatim>\<open>mathutils\<close> library are not
  part of the repository. The spec reads \<^verbatim>\<open>a @ b\<close> on two quaternions as the composition
  of rotations (the Hamilton product), \<^verbatim>\<open>q.inverted()\<close> as the inverse quaternion, and
  \<^verbatim>\<open>q @ v\<close> on a quaternion and a vector as \<open>q\<close> applied to \<open>v\<close>; \<^verbatim>\<open>+\<close>, \<^verbatim>\<open>-\<close>,
  \<^verbatim>\<open>*=\<close> and \<^verbatim>\<open>/=\<close> on vectors act on each component.
\<close>

definition quat_matmul :: "Quaternion \<Rightarrow> Quaternion \<Rightarrow> Quaternion" where
  "quat_matmul a b = Quaternion
     (qw a * qw b - qx a * qx b - qy a * qy b - qz a * qz b)
     (qw a * qx b + qx a * qw b + qy a * qz b - qz a * qy b)
     (qw a * qy b + qy a * qw b + qz a * qx b - qx a * qz b)
     (qw a * qz b + qz a * qw b + qx a * qy b - qy a * qx b)"

definition quat_dot :: "Quaternion \<Rightarrow> real" where
  "quat_dot a = qw a * qw a + qx a * qx a + qy a * qy a + qz a * qz a"

definition inverted :: "Quaternion \<Rightarrow> Quaternion" where
  "inverted a =
     (if quat_dot a = 0 then a
      else Quaternion (qw a / quat_dot a) (- qx a / quat_dot a)
                      (- qy a / quat_dot a) (- qz a / quat_dot a))"

definition quat_matmul_vec :: "Quaternion \<Rightarrow> Vector \<Rightarrow> Vector" where
  "quat_matmul_vec a v =
     (let r = quat_matmul (quat_matmul a (Quaternion 0 (vx v) (vy v) (vz v)))
                (Quaternion (qw a) (- qx a) (- qy a) (- qz a))
      in Vector (qx r) (qy r) (qz r))"

definition vec_add :: "Vector \<Rightarrow> Vector \<Rightarrow> Vector" where
  "vec_add a b = Vector (vx a + vx b) (vy a + vy b) (vz a + vz b)"

definition vec_sub :: "Vector \<Rightarrow> Vector \<Rightarrow> Vector" where
  "vec_sub a b = Vector (vx a - vx b) (vy a - vy b) (vz a - vz b)"

definition vec_imul :: "Vector \<Rightarrow> real \<Rightarrow> Vector" where
  "vec_imul a f = Vector (vx a * f) (vy a * f) (vz a * f)"

datatype exn = IndexError | ValueError | ZeroDivisionError | JSONDecodeError | OSError | RuntimeError

text \<open>\<^verbatim>\<open>v /= f\<close> raises \<^verbatim>\<open>ZeroDivisionError\<close> for a zero divisor.\<close>

definition vec_idiv :: "Vector \<Rightarrow> real \<Rightarrow> exn + Vector" where
  "vec_idiv a f =
     (if f = 0 then Inl ZeroDivisionError
      else Inr (Vector (vx a / f) (vy a / f) (vz a / f)))"

subsection \<open>Coordinate conversion and scale, as the two pipelines write them\<close>

datatype coordinate_system = BLENDER | WEBXR

text \<open>
  Lines 195--209 of the importer. The import option \<^verbatim>\<open>'BLENDER'\<close> converts the WebXR
  Y-up pose to the host's Z-up space (the spec's direction WEBXR_TO_HOST); \<^verbatim>\<open>'WEBXR'\<close>
  keeps the pose (the spec's KEEP).
\<close>

definition import_convert :: "coordinate_system \<Rightarrow> Vector \<Rightarrow> Quaternion \<Rightarrow> Vector \<times> Quaternion" where
  "import_convert cs v r =
     (if cs = BLENDER then
        (Vector (vx v) (- vz v) (vy v),
         quat_matmul (Quaternion 0.7071068 0.7071068 0 0) r)
      else (v, r))"

text \<open>
  Lines 410--422 of the exporter. The export option \<^verbatim>\<open>'WEBXR'\<close> converts the host's
  Z-up pose to WebXR Y-up space (the spec's direction HOST_TO_WEBXR); \<^verbatim>\<open>'BLENDER'\<close>
  keeps the pose.
\<close>

definition export_convert :: "coordinate_system \<Rightarrow> Vector \<Rightarrow> Quaternion \<Rightarrow> Vector \<times> Quaternion" where
  "export_convert cs v r =
     (if cs = WEBXR then
        (Vector (vx v) (vz v) (- vy v),
         quat_matmul (Quaternion 0.7071068 (- 0.7071068) 0 0) r)
      else (v, r))"

text \<open>Line 212 (\<^verbatim>\<open>p_converted *= self.scale_factor\<close>) and line 425
  (\<^verbatim>\<open>p_converted /= self.scale_factor\<close>).\<close>

definition import_scale :: "real \<Rightarrow> Vector \<Rightarrow> Vector" where
  "import_scale scale_factor v = vec_imul v scale_factor"

definition export_scale :: "real \<Rightarrow> Vector \<Rightarrow> exn + Vector" where
  "export_scale scale_factor v = vec_idiv v scale_factor"

text \<open>The spec's tolerance for comparing poses: \<open>10\<^sup>-\<^sup>5\<close> on every component.\<close>

definition within_tol :: "real \<Rightarrow> real \<Rightarrow> bool" where
  "within_tol a b \<longleftrightarrow> \<bar>a - b\<bar> \<le> 1 / 100000"

definition quat_within_tol :: "Quaternion \<Rightarrow> Quaternion \<Rightarrow> bool" where
  "quat_within_tol a b \<longleftrightarrow>
     within_tol (qw a) (qw b) \<and> within_tol (qx a) (qx b) \<and>
     within_tol (qy a) (qy b) \<and> within_tol (qz a) (qz b)"

text \<open>The same tolerance taken relative to the size of the original component.\<close>

definition within_rel_tol :: "real \<Rightarrow> real \<Rightarrow> bool" where
  "within_rel_tol a b \<longleftrightarrow> \<bar>a - b\<bar> \<le> \<bar>b\<bar> / 100000"

definition quat_within_rel_tol :: "Quaternion \<Rightarrow> Quaternion \<Rightarrow> bool" where
  "quat_within_rel_tol a b \<longleftrightarrow>
     within_rel_tol (qw a) (qw b) \<and> within_rel_tol (qx a) (qx b) \<and>
     within_rel_tol (qy a) (qy b) \<and> within_rel_tol (qz a) (qz b)"

definition convert_roundtrip :: "Vector \<Rightarrow> Quaternion \<Rightarrow> Vector \<times> Quaternion" where
  "convert_roundtrip v r =
     (case import_convert BLENDER v r of (v1, r1) \<Rightarrow> export_convert WEBXR v1 r1)"

section \<open>The host's scene, as the addon sees it\<close>

text \<open>\<^verbatim>\<open>int(x)\<close> on a float truncates toward zero.\<close>

definition py_int :: "real \<Rightarrow> int" where
  "py_int a = (if 0 \<le> a then \<lfloor>a\<rfloor> else \<lceil>a\<rceil>)"

datatype rotation_mode = QUATERNION | XYZ | XZY | YXZ | YZX | ZXY | ZYX | AXIS_ANGLE

datatype object_type = CAMERA | MESH | EMPTY

text \<open>
  One keyframe of a channel: \<^verbatim>\<open>co.x\<close> is the frame, the value is the whole vector or
  quaternion (the host keeps one curve per component; the addon always keys all
  components of a channel at once).
\<close>

record 'v keyframe =
  co_x :: real
  co_value :: 'v
  interpolation :: string
  handle_left_type :: string
  handle_right_type :: string

record action =
  action_name :: string
  location_keys :: "Vector keyframe list"
  rotation_quaternion_keys :: "Quaternion keyframe list"

text \<open>
  An object of the scene. \<open>animation_data\<close> is \<open>None\<close> when the object has no animation
  data, \<open>Some None\<close> when it has animation data without an action. The last four fields
  are the custom properties the importer stores. The Euler rotation is kept abstract.
\<close>

record 'e object =
  obj_name :: string
  obj_type :: object_type
  location :: Vector
  rotation_mode :: rotation_mode
  rotation_quaternion :: Quaternion
  rotation_euler :: 'e
  animation_data :: "action option option"
  selected :: bool
  webxr_animation_source :: "string option"
  webxr_animation_duration :: "real option"
  webxr_animation_frames :: "nat option"
  webxr_reference_space :: "string option"

text \<open>
  The scene and its data: objects are referred to by their index in \<open>objects\<close>, so that
  \<^verbatim>\<open>context.scene.camera\<close> and the camera the pipelines mutate are the same object.
\<close>

record 'e world =
  objects :: "'e object list"
  scene_camera :: "nat option"
  active_object :: "nat option"
  frame_start :: int
  frame_end :: int
  frame_current :: int
  fps :: int

text \<open>
  What the host computes and the addon only calls: the value of an animated channel at a
  frame (which may raise), the conversion of an Euler rotation to a quaternion, the
  defaults of a new object and of a new keyframe, and the host's version, already joined
  with dots.
\<close>

record 'e host =
  eval_location :: "Vector keyframe list \<Rightarrow> int \<Rightarrow> exn + Vector"
  eval_rotation_quaternion :: "Quaternion keyframe list \<Rightarrow> int \<Rightarrow> exn + Quaternion"
  to_quaternion :: "'e \<Rightarrow> Quaternion"
  euler_zero :: 'e
  key_interpolation :: string
  key_handle_type :: string
  app_version :: string

text \<open>
  A stateful step returns the exception it raised, if any, and the world as it is at that
  moment: the world after the step, or the world at the raise.
\<close>

type_synonym 'e outcome = "exn option \<times> 'e world"

definition and_then :: "'e outcome \<Rightarrow> ('e world \<Rightarrow> 'e outcome) \<Rightarrow> 'e outcome" where
  "and_then m f = (case m of (Some e, w) \<Rightarrow> (Some e, w) | (None, w) \<Rightarrow> f w)"

definition update_object :: "nat \<Rightarrow> ('e object \<Rightarrow> 'e object) \<Rightarrow> 'e world \<Rightarrow> 'e world" where
  "update_object c f w = w\<lparr>objects := (objects w)[c := f (objects w ! c)]\<rparr>"

text \<open>
  Modelled from the spec: \<^verbatim>\<open>scene.frame_set\<close> is the host's. It sets the playback position
  and makes the host materialise the animated pose of every object that has keyframes
  (location and quaternion rotation are the two channels the addon uses).
\<close>

definition refresh :: "'e host \<Rightarrow> int \<Rightarrow> 'e object \<Rightarrow> exn + 'e object" where
  "refresh h n ob =
     (case animation_data ob of
        Some (Some a) \<Rightarrow>
          (case (if location_keys a = [] then Inr (location ob)
                 else eval_location h (location_keys a) n) of
             Inl e \<Rightarrow> Inl e
           | Inr v \<Rightarrow>
               (case (if rotation_quaternion_keys a = [] then Inr (rotation_quaternion ob)
                      else eval_rotation_quaternion h (rotation_quaternion_keys a) n) of
                  Inl e \<Rightarrow> Inl e
                | Inr r \<Rightarrow> Inr (ob\<lparr>location := v, rotation_quaternion := r\<rparr>)))
      | _ \<Rightarrow> Inr ob)"

fun refresh_all :: "'e host \<Rightarrow> int \<Rightarrow> 'e object list \<Rightarrow> exn + 'e object list" where
  "refresh_all h n [] = Inr []"
| "refresh_all h n (ob # obs) =
     (case refresh h n ob of
        Inl e \<Rightarrow> Inl e
      | Inr ob' \<Rightarrow>
          (case refresh_all h n obs of Inl e \<Rightarrow> Inl e | Inr obs' \<Rightarrow> Inr (ob' # obs')))"

definition frame_set :: "'e host \<Rightarrow> int \<Rightarrow> 'e world \<Rightarrow> 'e outcome" where
  "frame_set h n w =
     (let w1 = w\<lparr>frame_current := n\<rparr>
      in case refresh_all h n (objects w1) of
           Inl e \<Rightarrow> (Some e, w1)
         | Inr obs \<Rightarrow> (None, w1\<lparr>objects := obs\<rparr>))"

text \<open>
  Modelled from the spec: \<^verbatim>\<open>keyframe_insert\<close> is the host's. It records the current value of
  the channel at the frame, overwriting the value of a keyframe already at that frame and
  keeping the track ordered by frame; an object without an action gets one.
\<close>

fun insert_key :: "'v keyframe \<Rightarrow> 'v keyframe list \<Rightarrow> 'v keyframe list" where
  "insert_key k [] = [k]"
| "insert_key k (x # xs) =
     (if co_x x = co_x k then x\<lparr>co_value := co_value k\<rparr> # xs
      else if co_x k < co_x x then k # x # xs
      else x # insert_key k xs)"

definition new_key :: "'e host \<Rightarrow> int \<Rightarrow> 'v \<Rightarrow> 'v keyframe" where
  "new_key h frame v =
     \<lparr>co_x = real_of_int frame, co_value = v, interpolation = key_interpolation h,
      handle_left_type = key_handle_type h, handle_right_type = key_handle_type h\<rparr>"

definition the_action :: "'e object \<Rightarrow> action" where
  "the_action ob =
     (case animation_data ob of
        Some (Some a) \<Rightarrow> a
      | _ \<Rightarrow> \<lparr>action_name = obj_name ob @ ''Action'', location_keys = [],
              rotation_quaternion_keys = []\<rparr>)"

definition keyframe_insert_location :: "'e host \<Rightarrow> int \<Rightarrow> 'e object \<Rightarrow> 'e object" where
  "keyframe_insert_location h frame ob =
     (let a = the_action ob
      in ob\<lparr>animation_data := Some (Some (a\<lparr>location_keys :=
              insert_key (new_key h frame (location ob)) (location_keys a)\<rparr>))\<rparr>)"

definition keyframe_insert_rotation_quaternion :: "'e host \<Rightarrow> int \<Rightarrow> 'e object \<Rightarrow> 'e object" where
  "keyframe_insert_rotation_quaternion h frame ob =
     (let a = the_action ob
      in ob\<lparr>animation_data := Some (Some (a\<lparr>rotation_quaternion_keys :=
              insert_key (new_key h frame (rotation_quaternion ob))
                (rotation_quaternion_keys a)\<rparr>))\<rparr>)"

text \<open>
  The object that \<^verbatim>\<open>bpy.data.objects.new\<close> returns for new camera data: at the origin,
  with the identity rotation, in an Euler rotation mode, without animation data.
\<close>

definition new_camera :: "'e host \<Rightarrow> string \<Rightarrow> 'e object" where
  "new_camera h nm =
     \<lparr>obj_name = nm, obj_type = CAMERA, location = Vector 0 0 0, rotation_mode = XYZ,
      rotation_quaternion = Quaternion 1 0 0 0, rotation_euler = euler_zero h,
      animation_data = None, selected = False, webxr_animation_source = None,
      webxr_animation_duration = None, webxr_animation_frames = None,
      webxr_reference_space = None\<rparr>"

text \<open>A host whose evaluation of an animated channel never raises.\<close>

definition host_never_raises :: "'e host \<Rightarrow> bool" where
  "host_never_raises h \<longleftrightarrow>
     (\<forall>ks n. \<exists>v. eval_location h ks n = Inr v) \<and>
     (\<forall>ks n. \<exists>r. eval_rotation_quaternion h ks n = Inr r)"

section \<open>The import pipeline\<close>

text \<open>
  The wire format: a frame has a timestamp \<open>t\<close>, a quaternion \<open>q\<close> as a list in the order
  \<open>x, y, z, w\<close>, and an optional position list \<open>p\<close>. The file's top level may lack
  \<open>frames\<close>, or hold something that is not a list.
\<close>

record frame_data =
  fd_t :: real
  fd_q :: "real list"
  fd_p :: "real list option"

datatype frames_value = NotAList | FrameList "frame_data list"

record json_data =
  json_frames :: "frames_value option"
  json_referenceSpaceType :: "string option"

text \<open>
  The options both operators have, and the importer's own. \<open>filepath_stem\<close> and
  \<open>filepath_name\<close> stand for \<^verbatim>\<open>Path(self.filepath).stem\<close> and \<^verbatim>\<open>.name\<close>.
\<close>

record operator_props =
  filepath_stem :: string
  filepath_name :: string
  scale_factor :: real
  coordinate_system :: coordinate_system

record importer = operator_props +
  create_camera :: bool
  use_existing_camera :: bool
  apply_deltas :: bool
  frame_rate :: real

datatype level = ERROR | INFO

datatype status = FINISHED | CANCELLED

text \<open>
  The text of a report: a fixed string, or one of the formatted messages
  \<^verbatim>\<open>Imported {n} frames from '{name}'\<close>, \<^verbatim>\<open>Import failed: {e}\<close>,
  \<^verbatim>\<open>Exported {n} frames to '{name}'\<close>, \<^verbatim>\<open>Export failed: {e}\<close>.
\<close>

datatype message =
    Text string
  | Imported_frames nat string
  | Import_failed exn
  | Exported_frames nat string
  | Export_failed exn

text \<open>Lines 116--132.\<close>

definition get_or_create_camera :: "importer \<Rightarrow> 'e host \<Rightarrow> 'e world \<Rightarrow> nat option \<times> 'e world" where
  "get_or_create_camera self h w =
     (if use_existing_camera self \<and> scene_camera w \<noteq> None then (scene_camera w, w)
      else if create_camera self \<or> scene_camera w = None then
        (let camera_obj = length (objects w)
         in (Some camera_obj,
             w\<lparr>objects := objects w @ [new_camera h ''WebXR_Camera''],
               scene_camera := Some camera_obj\<rparr>))
      else (None, w))"

text \<open>
  The pose the importer starts from when it applies deltas (lines 148--153) and the first
  frame's pose (lines 169--171).
\<close>

record delta_basis =
  initial_pos :: Vector
  initial_rot :: Quaternion
  q0 :: Quaternion
  p0 :: Vector

text \<open>Lines 179--184: the quaternion of a frame, from \<open>x, y, z, w\<close> to \<open>w, x, y, z\<close>.\<close>

definition parse_q :: "frame_data \<Rightarrow> exn + Quaternion" where
  "parse_q fd =
     (let l = fd_q fd
      in if length l < 4 then Inl IndexError
         else Inr (Quaternion (l ! 3) (l ! 0) (l ! 1) (l ! 2)))"

text \<open>Line 171: the first frame's position, read whenever the key \<open>p\<close> is present.\<close>

definition parse_p0 :: "frame_data \<Rightarrow> exn + Vector" where
  "parse_p0 fd =
     (case fd_p fd of
        Some l \<Rightarrow> if length l < 3 then Inl IndexError else Inr (Vector (l ! 0) (l ! 1) (l ! 2))
      | None \<Rightarrow> Inr (Vector 0 0 0))"

text \<open>Lines 187--193: a frame's position, read when \<open>p\<close> is present and not empty.\<close>

definition parse_p :: "frame_data \<Rightarrow> exn + Vector" where
  "parse_p fd =
     (case fd_p fd of
        Some l \<Rightarrow>
          if l \<noteq> [] then
            (if length l < 3 then Inl IndexError else Inr (Vector (l ! 0) (l ! 1) (l ! 2)))
          else Inr (Vector 0 0 0)
      | None \<Rightarrow> Inr (Vector 0 0 0))"

text \<open>Line 176.\<close>

definition frame_number :: "importer \<Rightarrow> real \<Rightarrow> int" where
  "frame_number self time = py_int (time * frame_rate self) + 1"

text \<open>Lines 195--229: conversion, scale and delta rebasing of one parsed pose.\<close>

definition import_pose :: "importer \<Rightarrow> delta_basis \<Rightarrow> Vector \<Rightarrow> Quaternion \<Rightarrow> Vector \<times> Quaternion" where
  "import_pose self b v r =
     (case import_convert (coordinate_system self) v r of
        (p_conv, q_converted) \<Rightarrow>
          (let p_converted = import_scale (scale_factor self) p_conv
           in if apply_deltas self then
                (let q_delta = quat_matmul (inverted (q0 b)) q_converted;
                     q_final = quat_matmul (initial_rot b) q_delta;
                     p_delta = vec_sub p_converted (p0 b);
                     p_delta_rotated =
                       (if coordinate_system self = BLENDER
                        then quat_matmul_vec (initial_rot b) p_delta else p_delta);
                     p_final = vec_add (initial_pos b) p_delta_rotated
                 in (p_final, q_final))
              else (p_converted, q_converted)))"

text \<open>Lines 195--212 alone: the converted and scaled pose, before any rebasing.\<close>

definition converted_pose :: "importer \<Rightarrow> Vector \<Rightarrow> Quaternion \<Rightarrow> Vector \<times> Quaternion" where
  "converted_pose self v r =
     (case import_convert (coordinate_system self) v r of
        (p_conv, q_converted) \<Rightarrow> (import_scale (scale_factor self) p_conv, q_converted))"

text \<open>Lines 175--229: frame number and final pose of one frame of the file.\<close>

definition frame_pose :: "importer \<Rightarrow> delta_basis \<Rightarrow> frame_data \<Rightarrow> exn + (int \<times> Vector \<times> Quaternion)" where
  "frame_pose self b fd =
     (case parse_q fd of
        Inl e \<Rightarrow> Inl e
      | Inr r \<Rightarrow>
          (case parse_p fd of
             Inl e \<Rightarrow> Inl e
           | Inr v \<Rightarrow> Inr (frame_number self (fd_t fd), import_pose self b v r)))"

text \<open>Lines 231--240: move to the frame, pose the camera, key both channels.\<close>

definition write_keyframe :: "'e host \<Rightarrow> nat \<Rightarrow> int \<times> Vector \<times> Quaternion \<Rightarrow> 'e world \<Rightarrow> 'e outcome" where
  "write_keyframe h camera fp w =
     (case fp of
        (n, p_final, q_final) \<Rightarrow>
          and_then (frame_set h n w)
            (\<lambda>w1. (None,
               update_object camera
                 (\<lambda>ob. keyframe_insert_rotation_quaternion h n
                    (keyframe_insert_location h n
                       (ob\<lparr>location := p_final, rotation_quaternion := q_final\<rparr>)))
                 w1)))"

text \<open>Lines 174--240: the loop over the frames stops at the first exception.\<close>

fun import_frames :: "importer \<Rightarrow> 'e host \<Rightarrow> nat \<Rightarrow> delta_basis \<Rightarrow> frame_data list \<Rightarrow> 'e world \<Rightarrow> 'e outcome" where
  "import_frames self h camera b [] w = (None, w)"
| "import_frames self h camera b (fd # fds) w =
     (case frame_pose self b fd of
        Inl e \<Rightarrow> (Some e, w)
      | Inr fp \<Rightarrow>
          and_then (write_keyframe h camera fp w) (import_frames self h camera b fds))"

text \<open>Lines 242--248.\<close>

definition set_bezier :: "'v keyframe \<Rightarrow> 'v keyframe" where
  "set_bezier k = k\<lparr>interpolation := ''BEZIER'', handle_left_type := ''AUTO_CLAMPED'',
                    handle_right_type := ''AUTO_CLAMPED''\<rparr>"

definition set_interpolation :: "'e object \<Rightarrow> 'e object" where
  "set_interpolation ob =
     (case animation_data ob of
        Some (Some a) \<Rightarrow>
          ob\<lparr>animation_data := Some (Some (a\<lparr>location_keys := map set_bezier (location_keys a),
                rotation_quaternion_keys := map set_bezier (rotation_quaternion_keys a)\<rparr>))\<rparr>
      | _ \<Rightarrow> ob)"

text \<open>Lines 253--258.\<close>

definition store_metadata :: "importer \<Rightarrow> real \<Rightarrow> nat \<Rightarrow> json_data \<Rightarrow> 'e object \<Rightarrow> 'e object" where
  "store_metadata self duration n metadata ob =
     (let ob1 = ob\<lparr>webxr_animation_source := Some (filepath_name self),
                   webxr_animation_duration := Some duration,
                   webxr_animation_frames := Some n\<rparr>
      in case json_referenceSpaceType metadata of
           Some s \<Rightarrow> ob1\<lparr>webxr_reference_space := Some s\<rparr>
         | None \<Rightarrow> ob1)"

text \<open>Lines 147--166: the initial pose, then the camera prepared for the new action.\<close>

definition initial_pose :: "importer \<Rightarrow> 'e host \<Rightarrow> 'e object \<Rightarrow> Vector \<times> Quaternion" where
  "initial_pose self h ob =
     (if apply_deltas self then
        (location ob,
         if rotation_mode ob = QUATERNION then rotation_quaternion ob
         else to_quaternion h (rotation_euler ob))
      else (Vector 0 0 0, Quaternion 1 0 0 0))"

definition prepare_camera :: "importer \<Rightarrow> 'e object \<Rightarrow> 'e object" where
  "prepare_camera self ob =
     ob\<lparr>rotation_mode := QUATERNION,
        animation_data := Some (Some \<lparr>action_name = ''WebXR_Anim_'' @ filepath_stem self,
          location_keys = [], rotation_quaternion_keys = []\<rparr>)\<rparr>"

text \<open>Lines 134--258. \<^verbatim>\<open>frames[-1]\<close> raises on an empty list.\<close>

definition import_animation :: "importer \<Rightarrow> 'e host \<Rightarrow> nat \<Rightarrow> frame_data list \<Rightarrow> json_data \<Rightarrow> 'e world \<Rightarrow> 'e outcome" where
  "import_animation self h camera frames metadata w =
     (if frames = [] then (Some IndexError, w)
      else
        (let duration = fd_t (last frames);
             total_frames = py_int (duration * frame_rate self);
             w1 = w\<lparr>frame_start := 1, frame_end := max total_frames 1,
                    fps := py_int (frame_rate self)\<rparr>;
             init = initial_pose self h (objects w1 ! camera);
             w2 = update_object camera (prepare_camera self) w1
         in case parse_q (hd frames) of
              Inl e \<Rightarrow> (Some e, w2)
            | Inr first_q \<Rightarrow>
                (case parse_p0 (hd frames) of
                   Inl e \<Rightarrow> (Some e, w2)
                 | Inr first_p \<Rightarrow>
                     and_then
                       (import_frames self h camera
                          \<lparr>initial_pos = fst init, initial_rot = snd init,
                           q0 = first_q, p0 = first_p\<rparr> frames w2)
                       (\<lambda>w3. and_then
                          (frame_set h 1 (update_object camera set_interpolation w3))
                          (\<lambda>w4. (None,
                             update_object camera
                               (store_metadata self duration (length frames) metadata) w4))))))"

text \<open>Lines 78--114. The file is given as what reading and decoding it produced.\<close>

definition execute_import :: "importer \<Rightarrow> 'e host \<Rightarrow> exn + json_data \<Rightarrow> 'e world \<Rightarrow> status \<times> (level \<times> message) \<times> 'e world" where
  "execute_import self h file w =
     (case file of
        Inl e \<Rightarrow> (CANCELLED, (ERROR, Import_failed e), w)
      | Inr data \<Rightarrow>
          (case json_frames data of
             None \<Rightarrow> (CANCELLED, (ERROR, Text ''Invalid JSON: missing 'frames' array''), w)
           | Some NotAList \<Rightarrow>
               (CANCELLED, (ERROR, Text ''Invalid JSON: missing 'frames' array''), w)
           | Some (FrameList frames) \<Rightarrow>
               if length frames = 0 then
                 (CANCELLED, (ERROR, Text ''No frames found in animation data''), w)
               else
                 (case get_or_create_camera self h w of
                    (None, w1) \<Rightarrow>
                      (CANCELLED, (ERROR, Text ''Failed to get or create camera''), w1)
                  | (Some camera, w1) \<Rightarrow>
                      (case import_animation self h camera frames data w1 of
                         (Some e, w2) \<Rightarrow> (CANCELLED, (ERROR, Import_failed e), w2)
                       | (None, w2) \<Rightarrow>
                           (FINISHED,
                            (INFO, Imported_frames (length frames) (filepath_stem self)),
                            update_object camera (\<lambda>ob. ob\<lparr>selected := True\<rparr>)
                              (w2\<lparr>active_object := Some camera\<rparr>))))))"

section \<open>The import as the spec describes it\<close>

text \<open>
  The wire format of a frame: \<open>q\<close> has the four entries \<open>x, y, z, w\<close>, and \<open>p\<close>, when
  present, the three entries \<open>x, y, z\<close>.
\<close>

definition wire_frame :: "frame_data \<Rightarrow> bool" where
  "wire_frame fd \<longleftrightarrow>
     length (fd_q fd) = 4 \<and> (case fd_p fd of None \<Rightarrow> True | Some l \<Rightarrow> length l = 3)"

text \<open>The rotation of a wire frame, scalar first, and its position, the origin when
  absent.\<close>

definition wire_rotation :: "frame_data \<Rightarrow> Quaternion" where
  "wire_rotation fd = Quaternion (fd_q fd ! 3) (fd_q fd ! 0) (fd_q fd ! 1) (fd_q fd ! 2)"

definition wire_position :: "frame_data \<Rightarrow> Vector" where
  "wire_position fd =
     (case fd_p fd of None \<Rightarrow> Vector 0 0 0 | Some l \<Rightarrow> Vector (l ! 0) (l ! 1) (l ! 2))"

text \<open>
  The spec's delta basis: the initial pose is the target's pose before anything is
  overwritten, the first-frame pose is that of \<open>frames[0]\<close>.
\<close>

definition spec_delta_basis :: "'e host \<Rightarrow> 'e object \<Rightarrow> frame_data \<Rightarrow> delta_basis" where
  "spec_delta_basis h target first =
     \<lparr>initial_pos = location target,
      initial_rot = (if rotation_mode target = QUATERNION then rotation_quaternion target
                     else to_quaternion h (rotation_euler target)),
      q0 = wire_rotation first, p0 = wire_position first\<rparr>"

text \<open>
  The spec's \<open>rebaseDelta\<close> on import: the final rotation is the initial rotation composed
  with (the inverse of the first-frame rotation composed with the converted rotation); the
  final position is the initial position plus the converted position minus the first-frame
  position, that difference rotated by the initial rotation unless the coordinate mode
  keeps the WebXR space.
\<close>

definition spec_rebaseDelta :: "coordinate_system \<Rightarrow> delta_basis \<Rightarrow> Vector \<times> Quaternion \<Rightarrow> Vector \<times> Quaternion" where
  "spec_rebaseDelta mode basis converted =
     (let delta_rotation = quat_matmul (inverted (q0 basis)) (snd converted);
          delta_position = vec_sub (fst converted) (p0 basis);
          rotated_delta = (if mode = WEBXR then delta_position
                           else quat_matmul_vec (initial_rot basis) delta_position)
      in (vec_add (initial_pos basis) rotated_delta,
          quat_matmul (initial_rot basis) delta_rotation))"

text \<open>
  The track that results from keying the frames of a clip in order, each at its frame
  number with the value \<open>f\<close> gives it, and then smoothing every keyframe.
\<close>

definition keyed_track :: "'e host \<Rightarrow> importer \<Rightarrow> (frame_data \<Rightarrow> 'v) \<Rightarrow> frame_data list \<Rightarrow> 'v keyframe list" where
  "keyed_track h self f frames =
     map set_bezier
       (foldl (\<lambda>ks fd. insert_key (new_key h (frame_number self (fd_t fd)) (f fd)) ks)
          [] frames)"

section \<open>The export pipeline\<close>

datatype sample_mode = KEYFRAMES | ALL_FRAMES | CUSTOM_RATE

record exporter = operator_props +
  export_active_camera :: bool
  sample_mode :: sample_mode
  custom_sample_rate :: int
  export_position :: bool
  reference_space_type :: string

text \<open>\<^verbatim>\<open>list(range(start, stop, step))\<close>: a zero step raises \<^verbatim>\<open>ValueError\<close>.\<close>

definition py_range :: "int \<Rightarrow> int \<Rightarrow> int \<Rightarrow> exn + int list" where
  "py_range start stop step =
     (if step = 0 then Inl ValueError
      else if 0 < step then
        Inr (map (\<lambda>k. start + int k * step) [0 ..< nat ((stop - start + step - 1) div step)])
      else
        Inr (map (\<lambda>k. start + int k * step)
               [0 ..< nat ((start - stop - step - 1) div (- step))]))"

text \<open>\<^verbatim>\<open>round(a, n)\<close>, on exact reals: to the nearest multiple of \<open>10\<^sup>-\<^sup>n\<close>, a tie to the
  even one.\<close>

definition round_half_even :: "real \<Rightarrow> int" where
  "round_half_even a =
     (let f = \<lfloor>a\<rfloor>; d = a - of_int f
      in if d < 1 / 2 then f else if 1 / 2 < d then f + 1 else if even f then f else f + 1)"

definition py_round :: "real \<Rightarrow> nat \<Rightarrow> real" where
  "py_round a n = of_int (round_half_even (a * 10 ^ n)) / 10 ^ n"

text \<open>Lines 367--376: the scene's camera, or the first selected object that is a camera.\<close>

definition get_camera :: "exporter \<Rightarrow> 'e world \<Rightarrow> nat option" where
  "get_camera self w =
     (if export_active_camera self then scene_camera w
      else
        (case filter (\<lambda>i. selected (objects w ! i) \<and> obj_type (objects w ! i) = CAMERA)
                [0 ..< length (objects w)] of
           [] \<Rightarrow> None
         | c # _ \<Rightarrow> Some c))"

text \<open>Lines 472--489. The keyframes are those of the two channels of this model.\<close>

definition get_frames_to_sample :: "exporter \<Rightarrow> 'e object \<Rightarrow> 'e world \<Rightarrow> exn + int list" where
  "get_frames_to_sample self camera scene =
     (if sample_mode self = KEYFRAMES then
        (case animation_data camera of
           Some (Some a) \<Rightarrow>
             Inr (sort (remdups (map (\<lambda>k. py_int (co_x k)) (location_keys a) @
                                 map (\<lambda>k. py_int (co_x k)) (rotation_quaternion_keys a))))
         | _ \<Rightarrow> Inr [])
      else if sample_mode self = CUSTOM_RATE then
        py_range (frame_start scene) (frame_end scene + 1) (custom_sample_rate self)
      else py_range (frame_start scene) (frame_end scene + 1) 1)"

record exported_frame =
  ef_t :: real
  ef_q :: "real list"
  ef_p :: "real list option"

text \<open>Lines 399--446: one sampled frame. \<open>fps_value\<close> is the frame rate read before the
  loop (line 396); dividing by a zero frame rate or a zero scale factor raises.\<close>

definition sample_frame :: "exporter \<Rightarrow> 'e host \<Rightarrow> nat \<Rightarrow> int \<Rightarrow> int \<Rightarrow> 'e world \<Rightarrow> (exn + exported_frame) \<times> 'e world" where
  "sample_frame self h camera fps_value frame_num w =
     (case frame_set h frame_num w of
        (Some e, w1) \<Rightarrow> (Inl e, w1)
      | (None, w1) \<Rightarrow>
          if fps_value = 0 then (Inl ZeroDivisionError, w1)
          else
            (let time = real_of_int (frame_num - frame_start w1) / real_of_int fps_value;
                 r = rotation_quaternion (objects w1 ! camera);
                 v = location (objects w1 ! camera)
             in case export_convert (coordinate_system self) v r of
                  (p_conv, q_converted) \<Rightarrow>
                    (case export_scale (scale_factor self) p_conv of
                       Inl e \<Rightarrow> (Inl e, w1)
                     | Inr p_converted \<Rightarrow>
                         (Inr \<lparr>ef_t = py_round time 4,
                               ef_q = [py_round (qx q_converted) 6, py_round (qy q_converted) 6,
                                       py_round (qz q_converted) 6, py_round (qw q_converted) 6],
                               ef_p = (if export_position self
                                       then Some [py_round (vx p_converted) 6,
                                                  py_round (vy p_converted) 6,
                                                  py_round (vz p_converted) 6]
                                       else None)\<rparr>,
                          w1))))"

text \<open>Lines 398--446: the loop stops at the first exception, with the world as it is
  then.\<close>

fun export_frames :: "exporter \<Rightarrow> 'e host \<Rightarrow> nat \<Rightarrow> int \<Rightarrow> int list \<Rightarrow> 'e world \<Rightarrow> (exn + exported_frame list) \<times> 'e world" where
  "export_frames self h camera fps_value [] w = (Inr [], w)"
| "export_frames self h camera fps_value (n # ns) w =
     (case sample_frame self h camera fps_value n w of
        (Inl e, w1) \<Rightarrow> (Inl e, w1)
      | (Inr f, w1) \<Rightarrow>
          (case export_frames self h camera fps_value ns w1 of
             (Inl e, w2) \<Rightarrow> (Inl e, w2)
           | (Inr fs, w2) \<Rightarrow> (Inr (f # fs), w2)))"

record export_metadata =
  exportedFrom :: string
  blenderVersion :: string
  cameraName :: string
  md_fps :: int
  frameRange :: "int \<times> int"
  originalSource :: "string option"

record export_output =
  out_frames :: "exported_frame list"
  out_referenceSpaceType :: string
  out_metadata :: export_metadata

text \<open>Lines 378--470.\<close>

definition export_animation :: "exporter \<Rightarrow> 'e host \<Rightarrow> nat \<Rightarrow> 'e world \<Rightarrow> (exn + export_output) \<times> 'e world" where
  "export_animation self h camera w =
     (case get_frames_to_sample self (objects w ! camera) w of
        Inl e \<Rightarrow> (Inl e, w)
      | Inr frames_to_sample \<Rightarrow>
          (let original_frame = frame_current w;
               original_rotation_mode = rotation_mode (objects w ! camera);
               needs_quaternion_conversion = (original_rotation_mode \<noteq> QUATERNION);
               w1 = (if needs_quaternion_conversion
                     then update_object camera (\<lambda>ob. ob\<lparr>rotation_mode := QUATERNION\<rparr>) w
                     else w)
           in case export_frames self h camera (fps w1) frames_to_sample w1 of
                (Inl e, w2) \<Rightarrow> (Inl e, w2)
              | (Inr exported_frames, w2) \<Rightarrow>
                  (case frame_set h original_frame w2 of
                     (Some e, w3) \<Rightarrow> (Inl e, w3)
                   | (None, w3) \<Rightarrow>
                       (let w4 = (if needs_quaternion_conversion
                                  then update_object camera
                                         (\<lambda>ob. ob\<lparr>rotation_mode := original_rotation_mode\<rparr>) w3
                                  else w3)
                        in (Inr \<lparr>out_frames = exported_frames,
                                 out_referenceSpaceType = reference_space_type self,
                                 out_metadata =
                                   \<lparr>exportedFrom = ''Blender'', blenderVersion = app_version h,
                                    cameraName = obj_name (objects w4 ! camera),
                                    md_fps = fps w1,
                                    frameRange = (frame_start w4, frame_end w4),
                                    originalSource =
                                      webxr_animation_source (objects w4 ! camera)\<rparr>\<rparr>,
                            w4)))))"

text \<open>Lines 337--365. \<open>write_error\<close> is the exception that writing the file raises, if
  any; the result carries the written content.\<close>

definition execute_export :: "exporter \<Rightarrow> 'e host \<Rightarrow> exn option \<Rightarrow> 'e world \<Rightarrow> status \<times> (level \<times> message) \<times> export_output option \<times> 'e world" where
  "execute_export self h write_error w =
     (case get_camera self w of
        None \<Rightarrow> (CANCELLED, (ERROR, Text ''No camera found to export''), None, w)
      | Some camera \<Rightarrow>
          (case animation_data (objects w ! camera) of
             Some (Some a) \<Rightarrow>
               (case export_animation self h camera w of
                  (Inl e, w1) \<Rightarrow> (CANCELLED, (ERROR, Export_failed e), None, w1)
                | (Inr exported, w1) \<Rightarrow>
                    (case write_error of
                       Some e \<Rightarrow> (CANCELLED, (ERROR, Export_failed e), None, w1)
                     | None \<Rightarrow>
                         (FINISHED,
                          (INFO, Exported_frames (length (out_frames exported))
                                   (filepath_name self)),
                          Some exported, w1)))
           | _ \<Rightarrow> (CANCELLED, (ERROR, Text ''Camera has no animation data''), None, w)))"

section \<open>Sample values\<close>

text \<open>The importer's options at their declared defaults (lines 34--76), for a file
  \<^verbatim>\<open>walk.json\<close>.\<close>

definition default_importer :: importer where
  "default_importer =
     \<lparr>filepath_stem = ''walk'', filepath_name = ''walk.json'', scale_factor = 1,
      coordinate_system = BLENDER, create_camera = True, use_existing_camera = False,
      apply_deltas = False, frame_rate = 30\<rparr>"

text \<open>A host that evaluates every channel to the rest pose, and one that does so only for
  a frame in the range of a C \<open>int\<close> and raises \<^verbatim>\<open>ValueError\<close> for any other, as the
  host's Python binding does when \<^verbatim>\<open>scene.frame_set\<close> is given such a frame.\<close>

definition still_host :: "unit host" where
  "still_host =
     \<lparr>eval_location = (\<lambda>ks n. Inr (Vector 0 0 0)),
      eval_rotation_quaternion = (\<lambda>ks n. Inr (Quaternion 1 0 0 0)),
      to_quaternion = (\<lambda>e. Quaternion 1 0 0 0), euler_zero = (),
      key_interpolation = ''BEZIER'', key_handle_type = ''AUTO_CLAMPED'',
      app_version = ''4.2.0''\<rparr>"

definition int_range_host :: "unit host" where
  "int_range_host =
     still_host\<lparr>eval_location :=
                  (\<lambda>ks n. if n < - 2147483648 \<or> 2147483647 < n then Inl ValueError
                           else Inr (Vector 0 0 0)),
                eval_rotation_quaternion :=
                  (\<lambda>ks n. if n < - 2147483648 \<or> 2147483647 < n then Inl ValueError
                           else Inr (Quaternion 1 0 0 0))\<rparr>"

text \<open>A scene with one camera, which is the scene's camera, and a scene without objects.\<close>

definition one_camera_world :: "unit world" where
  "one_camera_world =
     \<lparr>objects = [new_camera still_host ''Camera''], scene_camera = Some 0,
      active_object = None, frame_start = 1, frame_end = 250, frame_current = 1, fps = 24\<rparr>"

definition empty_world :: "unit world" where
  "empty_world =
     \<lparr>objects = [], scene_camera = None, active_object = None, frame_start = 1,
      frame_end = 250, frame_current = 1, fps = 24\<rparr>"

text \<open>The exporter's options at their declared defaults (lines 275--335), for a file
  \<^verbatim>\<open>walk.json\<close>.\<close>

definition default_exporter :: exporter where
  "default_exporter =
     \<lparr>filepath_stem = ''walk'', filepath_name = ''walk.json'', scale_factor = 1,
      coordinate_system = WEBXR, export_active_camera = True, sample_mode = ALL_FRAMES,
      custom_sample_rate = 1, export_position = True, reference_space_type = ''local-floor''\<rparr>"

text \<open>A scene whose camera is in an Euler rotation mode and carries two keyframes on each
  channel, with the playback position at frame 5 and the frame range 1 to 2.\<close>

definition animated_world :: "unit world" where
  "animated_world =
     \<lparr>objects =
        [(new_camera still_host ''Camera'')
           \<lparr>animation_data := Some (Some
              \<lparr>action_name = ''CameraAction'',
               location_keys = [new_key still_host 1 (Vector 0 0 0),
                                new_key still_host 2 (Vector 1 0 0)],
               rotation_quaternion_keys = [new_key still_host 1 (Quaternion 1 0 0 0),
                                           new_key still_host 2 (Quaternion 1 0 0 0)]\<rparr>)\<rparr>],
      scene_camera = Some 0, active_object = None, frame_start = 1, frame_end = 2,
      frame_current = 5, fps = 24\<rparr>"

text \<open>The same scene with the camera's second keyframes at frame 3000000000.\<close>

definition far_keyed_world :: "unit world" where
  "far_keyed_world =
     \<lparr>objects =
        [(new_camera still_host ''Camera'')
           \<lparr>animation_data := Some (Some
              \<lparr>action_name = ''CameraAction'',
               location_keys = [new_key still_host 1 (Vector 0 0 0),
                                new_key still_host 3000000000 (Vector 1 0 0)],
               rotation_quaternion_keys = [new_key still_host 1 (Quaternion 1 0 0 0),
                                           new_key still_host 3000000000 (Quaternion 1 0 0 0)]\<rparr>)\<rparr>],
      scene_camera = Some 0, active_object = None, frame_start = 1, frame_end = 2,
      frame_current = 5, fps = 24\<rparr>"

definition no_metadata :: json_data where
  "no_metadata = \<lparr>json_frames = None, json_referenceSpaceType = None\<rparr>"

section \<open>Properties\<close>

subsection \<open>The transform core\<close>

lemma unit_component_le_1:
  fixes a b c d :: real
  assumes "a * a + b * b + c * c + d * d = 1"
  shows "\<bar>a\<bar> \<le> 1"
proof -
  have "0 \<le> b * b" "0 \<le> c * c" "0 \<le> d * d" by simp_all
  with assms have "a * a \<le> 1" by linarith
  then have "a\<^sup>2 \<le> 1" by (simp add: power2_eq_square)
  then show ?thesis by (simp add: abs_square_le_1)
qed

lemma basis_twice:
  "quat_matmul (Quaternion k (- k) 0 0) (quat_matmul (Quaternion k k 0 0) r) =
     Quaternion (2 * k * k * qw r) (2 * k * k * qx r) (2 * k * k * qy r) (2 * k * k * qz r)"
  by (cases r) (simp add: quat_matmul_def algebra_simps)

text \<open>The round trip scales the rotation by \<open>2 \<times> 0.7071068\<^sup>2 = 1.00000005321248\<close>.\<close>

lemma convert_roundtrip_exact:
  "convert_roundtrip v r =
     (v, Quaternion (2 * 0.7071068 * 0.7071068 * qw r) (2 * 0.7071068 * 0.7071068 * qx r)
                    (2 * 0.7071068 * 0.7071068 * qy r) (2 * 0.7071068 * 0.7071068 * qz r))"
  unfolding convert_roundtrip_def import_convert_def export_convert_def
  by (simp only: refl if_True prod.case basis_twice Vector.sel minus_minus Vector.collapse)

lemma basis_drift_rel:
  fixes a :: real
  shows "\<bar>2 * 0.7071068 * 0.7071068 * a - a\<bar> \<le> \<bar>a\<bar> / 100000"
proof -
  have "2 * 0.7071068 * 0.7071068 * a - a = (0.00000005321248 :: real) * a" by simp
  moreover have "\<bar>(0.00000005321248 :: real) * a\<bar> \<le> (1 / 100000) * \<bar>a\<bar>"
    unfolding abs_mult by (intro mult_right_mono) simp_all
  ultimately show ?thesis by simp
qed

lemma basis_drift:
  fixes a :: real
  assumes "\<bar>a\<bar> \<le> 1"
  shows "\<bar>2 * 0.7071068 * 0.7071068 * a - a\<bar> \<le> 1 / 100000"
  using basis_drift_rel [of a] assms by linarith

text \<open>
  C1. Converting a pose with the importer's WebXR-to-host step and then with the
  exporter's host-to-WebXR step gives back the position exactly and a rotation whose every
  component is within the relative tolerance \<open>10\<^sup>-\<^sup>5\<close> of the original; for a unit rotation
  quaternion every component is within \<open>10\<^sup>-\<^sup>5\<close> of the original outright (the two basis
  constants \<open>0.7071068\<close> multiply to slightly more than one half).
\<close>

theorem convertSpace_roundtrip:
  "fst (convert_roundtrip v r) = v \<and>
   quat_within_rel_tol (snd (convert_roundtrip v r)) r \<and>
   (quat_dot r = 1 \<longrightarrow> quat_within_tol (snd (convert_roundtrip v r)) r)"
proof -
  have rel: "quat_within_rel_tol (snd (convert_roundtrip v r)) r"
    unfolding convert_roundtrip_exact quat_within_rel_tol_def within_rel_tol_def snd_conv
      Quaternion.sel
    using basis_drift_rel [of "qw r"] basis_drift_rel [of "qx r"] basis_drift_rel [of "qy r"]
      basis_drift_rel [of "qz r"] by blast
  have unit: "quat_within_tol (snd (convert_roundtrip v r)) r" if "quat_dot r = 1"
  proof -
    from that have u: "qw r * qw r + qx r * qx r + qy r * qy r + qz r * qz r = 1"
      by (simp add: quat_dot_def)
    have w: "\<bar>qw r\<bar> \<le> 1" using u by (rule unit_component_le_1)
    have x: "\<bar>qx r\<bar> \<le> 1"
      using u unit_component_le_1 [of "qx r" "qw r" "qy r" "qz r"] by simp
    have y: "\<bar>qy r\<bar> \<le> 1"
      using u unit_component_le_1 [of "qy r" "qw r" "qx r" "qz r"] by simp
    have z: "\<bar>qz r\<bar> \<le> 1"
      using u unit_component_le_1 [of "qz r" "qw r" "qx r" "qy r"] by simp
    show ?thesis
      unfolding convert_roundtrip_exact quat_within_tol_def within_tol_def snd_conv
        Quaternion.sel
      using basis_drift [OF w] basis_drift [OF x] basis_drift [OF y] basis_drift [OF z]
      by blast
  qed
  have pos: "fst (convert_roundtrip v r) = v"
    by (simp add: convert_roundtrip_exact)
  from pos rel unit show ?thesis by blast
qed

theorem convertSpace_roundtrip_witness:
  "quat_dot (Quaternion 0 1 0 0) = 1 \<and>
   fst (convert_roundtrip (Vector 1 2 3) (Quaternion 0 1 0 0)) = Vector 1 2 3 \<and>
   quat_within_tol (snd (convert_roundtrip (Vector 1 2 3) (Quaternion 0 1 0 0)))
     (Quaternion 0 1 0 0)"
  using convertSpace_roundtrip [of "Vector 1 2 3" "Quaternion 0 1 0 0"]
  by (simp add: quat_dot_def)

text \<open>
  C9. For a scale factor \<open>f > 0\<close>, the import scale step (multiply by \<open>f\<close>) followed by
  the export scale step (divide by \<open>f\<close>) raises nothing and returns the position.
\<close>

theorem scale_roundtrip:
  assumes "0 < f"
  shows "export_scale f (import_scale f v) = Inr v"
  using assms by (cases v) (simp add: export_scale_def import_scale_def vec_idiv_def vec_imul_def)

theorem scale_roundtrip_witness:
  "(0::real) < 2.5 \<and> export_scale 2.5 (import_scale 2.5 (Vector 1 (-2) 3)) = Inr (Vector 1 (-2) 3)"
  using scale_roundtrip [of "2.5" "Vector 1 (-2) 3"] by simp

subsection \<open>The import pipeline, frame by frame\<close>

text \<open>
  C5. With the conversion to the host's space, unit scale and no deltas, a frame with wire
  position \<open>[1,0,0]\<close> gets host position \<open>(1,0,0)\<close> and a frame with wire position
  \<open>[0,1,0]\<close> gets host position \<open>(0,0,1)\<close>.
\<close>

theorem import_webxr_to_host_position:
  "frame_pose (self\<lparr>coordinate_system := BLENDER, scale_factor := 1, apply_deltas := False\<rparr>) b
     \<lparr>fd_t = t, fd_q = [x, y, z, w], fd_p = Some [1, 0, 0]\<rparr>
   = Inr (frame_number self t, Vector 1 0 0,
          quat_matmul (Quaternion 0.7071068 0.7071068 0 0) (Quaternion w x y z)) \<and>
   frame_pose (self\<lparr>coordinate_system := BLENDER, scale_factor := 1, apply_deltas := False\<rparr>) b
     \<lparr>fd_t = t, fd_q = [x, y, z, w], fd_p = Some [0, 1, 0]\<rparr>
   = Inr (frame_number self t, Vector 0 0 1,
          quat_matmul (Quaternion 0.7071068 0.7071068 0 0) (Quaternion w x y z))"
  by (simp add: frame_pose_def parse_q_def parse_p_def frame_number_def import_pose_def
        import_convert_def import_scale_def vec_imul_def)

subsection \<open>The import operator\<close>

text \<open>
  C7. When the decoded file has no \<open>frames\<close> entry, or one that is not a list, or an
  empty list, the import returns the cancelled outcome with the matching error report,
  raises nothing, and leaves the scene as it was (no keyframe is written).
\<close>

theorem import_rejects_missing_or_empty_frames:
  "execute_import self h (Inr (data\<lparr>json_frames := None\<rparr>)) w =
     (CANCELLED, (ERROR, Text ''Invalid JSON: missing 'frames' array''), w) \<and>
   execute_import self h (Inr (data\<lparr>json_frames := Some NotAList\<rparr>)) w =
     (CANCELLED, (ERROR, Text ''Invalid JSON: missing 'frames' array''), w) \<and>
   execute_import self h (Inr (data\<lparr>json_frames := Some (FrameList [])\<rparr>)) w =
     (CANCELLED, (ERROR, Text ''No frames found in animation data''), w)"
  by (simp add: execute_import_def)

subsection \<open>Resolving the target camera\<close>

lemma get_or_create_camera_None:
  "fst (get_or_create_camera self h w) = None \<longleftrightarrow>
     \<not> create_camera self \<and> scene_camera w \<noteq> None \<and> \<not> use_existing_camera self"
  by (auto simp: get_or_create_camera_def Let_def)

text \<open>
  C10. When the option to create a camera is set, resolving the target always yields a
  camera, which is then the scene's camera: the scene's existing one, or a new one
  appended to the scene's objects. The resolution yields nothing, and the import reports
  that it failed to get or create a camera, only when the option to create is off, the
  scene has a camera, and the option to use the existing camera is off.
\<close>

theorem camera_resolution:
  "(create_camera self \<longrightarrow>
      (\<exists>c. fst (get_or_create_camera self h w) = Some c \<and>
           scene_camera (snd (get_or_create_camera self h w)) = Some c \<and>
           (scene_camera w = Some c \<and> snd (get_or_create_camera self h w) = w \<or>
            c = length (objects w) \<and>
            objects (snd (get_or_create_camera self h w)) =
              objects w @ [new_camera h ''WebXR_Camera'']))) \<and>
   (fst (get_or_create_camera self h w) = None \<longleftrightarrow>
      \<not> create_camera self \<and> scene_camera w \<noteq> None \<and> \<not> use_existing_camera self) \<and>
   (fst (snd (execute_import self h file w)) = (ERROR, Text ''Failed to get or create camera'')
      \<longrightarrow> \<not> create_camera self \<and> scene_camera w \<noteq> None \<and> \<not> use_existing_camera self)"
proof -
  have created: "\<exists>c. fst (get_or_create_camera self h w) = Some c \<and>
           scene_camera (snd (get_or_create_camera self h w)) = Some c \<and>
           (scene_camera w = Some c \<and> snd (get_or_create_camera self h w) = w \<or>
            c = length (objects w) \<and>
            objects (snd (get_or_create_camera self h w)) =
              objects w @ [new_camera h ''WebXR_Camera''])"
    if "create_camera self"
    using that by (auto simp: get_or_create_camera_def Let_def)
  have failed: "fst (get_or_create_camera self h w) = None"
    if r: "fst (snd (execute_import self h file w)) =
             (ERROR, Text ''Failed to get or create camera'')"
  proof (rule ccontr)
    assume "fst (get_or_create_camera self h w) \<noteq> None"
    then obtain c w1 where g: "get_or_create_camera self h w = (Some c, w1)"
      by (cases "get_or_create_camera self h w") auto
    from r show False
      by (auto simp: execute_import_def g split: sum.splits option.splits frames_value.splits
            if_splits prod.splits)
  qed
  from created failed get_or_create_camera_None [of self h w] show ?thesis by blast
qed

theorem camera_resolution_witness:
  "create_camera default_importer \<and>
   fst (get_or_create_camera default_importer still_host empty_world) = Some 0 \<and>
   fst (snd (execute_import (default_importer\<lparr>create_camera := False\<rparr>) still_host
      (Inr \<lparr>json_frames = Some (FrameList [\<lparr>fd_t = 0, fd_q = [0, 0, 0, 1], fd_p = None\<rparr>]),
            json_referenceSpaceType = None\<rparr>) one_camera_world))
     = (ERROR, Text ''Failed to get or create camera'') \<and>
   \<not> create_camera (default_importer\<lparr>create_camera := False\<rparr>) \<and>
   scene_camera one_camera_world \<noteq> None \<and>
   \<not> use_existing_camera (default_importer\<lparr>create_camera := False\<rparr>)"
  using camera_resolution [of default_importer still_host empty_world]
    camera_resolution [of "default_importer\<lparr>create_camera := False\<rparr>" still_host
      one_camera_world]
  by (simp add: default_importer_def empty_world_def one_camera_world_def execute_import_def
        get_or_create_camera_def)

subsection \<open>The frame range\<close>

lemma and_then_invariant:
  assumes "P (snd m)" and "\<And>w. P w \<Longrightarrow> P (snd (f w))"
  shows "P (snd (and_then m f))"
  using assms by (cases m) (auto simp: and_then_def split: option.splits)

lemma frame_set_range:
  "frame_start (snd (frame_set h n w)) = frame_start w \<and>
   frame_end (snd (frame_set h n w)) = frame_end w"
  by (simp add: frame_set_def Let_def split: sum.splits)

lemma update_object_range:
  "frame_start (update_object c f w) = frame_start w \<and>
   frame_end (update_object c f w) = frame_end w"
  by (simp add: update_object_def)

lemma write_keyframe_range:
  assumes "frame_start w = a \<and> frame_end w = b"
  shows "frame_start (snd (write_keyframe h c fp w)) = a \<and>
         frame_end (snd (write_keyframe h c fp w)) = b"
proof -
  obtain n v r where fp: "fp = (n, v, r)" by (cases fp)
  show ?thesis
    unfolding fp write_keyframe_def prod.case
    by (rule and_then_invariant [where P = "\<lambda>w. frame_start w = a \<and> frame_end w = b"])
       (simp_all add: frame_set_range update_object_range assms)
qed

lemma import_frames_range:
  assumes "frame_start w = a \<and> frame_end w = b"
  shows "frame_start (snd (import_frames self h c bs fds w)) = a \<and>
         frame_end (snd (import_frames self h c bs fds w)) = b"
  using assms
proof (induction fds arbitrary: w)
  case Nil
  then show ?case by simp
next
  case (Cons fd fds)
  show ?case
  proof (cases "frame_pose self bs fd")
    case (Inl e)
    then show ?thesis using Cons.prems by simp
  next
    case (Inr fp)
    have "frame_start (snd (and_then (write_keyframe h c fp w) (import_frames self h c bs fds))) = a \<and>
          frame_end (snd (and_then (write_keyframe h c fp w) (import_frames self h c bs fds))) = b"
      by (rule and_then_invariant [where P = "\<lambda>w. frame_start w = a \<and> frame_end w = b"])
         (simp_all add: write_keyframe_range [OF Cons.prems] Cons.IH)
    then show ?thesis using Inr by simp
  qed
qed

lemma max_py_int: "max (py_int a) 1 = max 1 \<lfloor>a\<rfloor>"
proof (cases "0 \<le> a")
  case True
  then show ?thesis by (simp add: py_int_def max.commute)
next
  case False
  then have "\<lceil>a\<rceil> \<le> 0" "\<lfloor>a\<rfloor> \<le> 0" by (simp_all add: ceiling_le_iff floor_le_iff)
  with False show ?thesis by (simp add: py_int_def)
qed

text \<open>The frame range is set first and no later step of the import, raising or not,
  changes it.\<close>

lemma import_animation_range:
  assumes "frames \<noteq> []"
  shows "frame_start (snd (import_animation self h camera frames metadata w)) = 1 \<and>
         frame_end (snd (import_animation self h camera frames metadata w)) =
           max 1 \<lfloor>fd_t (last frames) * frame_rate self\<rfloor> \<and>
         1 \<le> frame_end (snd (import_animation self h camera frames metadata w))"
proof -
  define b where "b = max 1 \<lfloor>fd_t (last frames) * frame_rate self\<rfloor>"
  define w1 where "w1 = w\<lparr>frame_start := 1,
     frame_end := max (py_int (fd_t (last frames) * frame_rate self)) 1,
     fps := py_int (frame_rate self)\<rparr>"
  define w2 where "w2 = update_object camera (prepare_camera self) w1"
  let ?P = "\<lambda>w. frame_start w = 1 \<and> frame_end w = b"
  have P2: "?P w2"
    by (simp add: w2_def w1_def update_object_range b_def max_py_int)
  have tail: "?P (snd (and_then (import_frames self h camera bs frames w2)
                 (\<lambda>w3. and_then (frame_set h 1 (update_object camera set_interpolation w3))
                    (\<lambda>w4. (None, update_object camera
                       (store_metadata self d (length frames) metadata) w4)))))" for bs d
    apply (rule and_then_invariant [where P = ?P])
     apply (rule import_frames_range [OF P2])
    apply (rule and_then_invariant [where P = ?P])
     apply (simp add: frame_set_range update_object_range)
    apply (simp add: update_object_range)
    done
  have "?P (snd (import_animation self h camera frames metadata w))"
    using assms P2 tail
    by (simp add: import_animation_def Let_def w1_def [symmetric] w2_def [symmetric]
          split: sum.splits)
  then show ?thesis by (simp add: b_def)
qed

subsection \<open>The keyframes written\<close>

lemma refresh_ok:
  assumes "host_never_raises h"
  shows "\<exists>ob'. refresh h n ob = Inr ob' \<and> animation_data ob' = animation_data ob"
proof (cases "animation_data ob")
  case None
  then show ?thesis by (simp add: refresh_def)
next
  case (Some x)
  show ?thesis
  proof (cases x)
    case None
    with Some show ?thesis by (simp add: refresh_def)
  next
    case (Some a)
    from assms obtain v where v: "eval_location h (location_keys a) n = Inr v"
      unfolding host_never_raises_def by blast
    from assms obtain r where r:
      "eval_rotation_quaternion h (rotation_quaternion_keys a) n = Inr r"
      unfolding host_never_raises_def by blast
    from \<open>animation_data ob = Some x\<close> Some v r show ?thesis
      by (simp add: refresh_def)
  qed
qed

lemma refresh_all_ok:
  assumes "host_never_raises h"
  shows "\<exists>obs'. refresh_all h n obs = Inr obs' \<and>
                map animation_data obs' = map animation_data obs"
proof (induction obs)
  case Nil
  show ?case by simp
next
  case (Cons ob obs)
  from refresh_ok [OF assms, of n ob] obtain ob' where
    "refresh h n ob = Inr ob'" "animation_data ob' = animation_data ob" by blast
  moreover from Cons.IH obtain obs' where
    "refresh_all h n obs = Inr obs'" "map animation_data obs' = map animation_data obs"
    by blast
  ultimately show ?case by simp
qed

lemma frame_set_ok:
  assumes "host_never_raises h"
  shows "\<exists>w'. frame_set h n w = (None, w') \<and>
              map animation_data (objects w') = map animation_data (objects w)"
proof -
  from refresh_all_ok [OF assms, of n "objects w"] obtain obs' where
    "refresh_all h n (objects w) = Inr obs'"
    "map animation_data obs' = map animation_data (objects w)" by blast
  then show ?thesis by (simp add: frame_set_def)
qed

lemma write_keyframe_ok:
  assumes h: "host_never_raises h" and c: "c < length (objects w)"
    and a: "animation_data (objects w ! c) = Some (Some a)"
  shows "\<exists>w'. write_keyframe h c (n, v, r) w = (None, w') \<and>
              length (objects w') = length (objects w) \<and>
              animation_data (objects w' ! c) =
                Some (Some (a\<lparr>location_keys := insert_key (new_key h n v) (location_keys a),
                   rotation_quaternion_keys :=
                     insert_key (new_key h n r) (rotation_quaternion_keys a)\<rparr>))"
proof -
  from frame_set_ok [OF h, of n w] obtain w1 where
    fs: "frame_set h n w = (None, w1)" and
    m: "map animation_data (objects w1) = map animation_data (objects w)" by blast
  from m have len: "length (objects w1) = length (objects w)" by (rule map_eq_imp_length_eq)
  from m c len have "animation_data (objects w1 ! c) = animation_data (objects w ! c)"
    by (metis nth_map)
  with a have a1: "animation_data (objects w1 ! c) = Some (Some a)" by simp
  show ?thesis
    using c len a1
    by (simp add: write_keyframe_def fs and_then_def update_object_def
          keyframe_insert_location_def keyframe_insert_rotation_quaternion_def the_action_def
          Let_def)
qed

lemma still_host_never_raises: "host_never_raises still_host"
  by (simp add: host_never_raises_def still_host_def)

text \<open>
  C4. Importing the clip of the two frames \<open>{t:0, q:[0,0,0,1], p:[0,0,0]}\<close> and
  \<open>{t:1, q:[0,0,0,1], p:[1,0,0]}\<close> at frame rate 30 and scale 1, without deltas and
  under either coordinate mode, into a camera of the scene, on a host whose evaluation
  does not raise, completes and leaves exactly two keyframes on each channel, at frames
  1 and 31, with the positions \<open>(0,0,0)\<close> and \<open>(1,0,0)\<close>.
\<close>

theorem import_two_frame_clip:
  assumes h: "host_never_raises h" and c: "camera < length (objects w)"
  shows "\<exists>w'. import_animation
                 (self\<lparr>frame_rate := 30, scale_factor := 1, apply_deltas := False\<rparr>) h camera
                 [\<lparr>fd_t = 0, fd_q = [0, 0, 0, 1], fd_p = Some [0, 0, 0]\<rparr>,
                  \<lparr>fd_t = 1, fd_q = [0, 0, 0, 1], fd_p = Some [1, 0, 0]\<rparr>] metadata w
               = (None, w') \<and>
              map (\<lambda>k. (co_x k, co_value k))
                (location_keys (the_action (objects w' ! camera))) =
                [(1, Vector 0 0 0), (31, Vector 1 0 0)] \<and>
              map co_x (rotation_quaternion_keys (the_action (objects w' ! camera))) = [1, 31]"
proof -
  define s where "s = self\<lparr>frame_rate := 30, scale_factor := 1, apply_deltas := False\<rparr>"
  define f1 where "f1 = \<lparr>fd_t = 0, fd_q = [0, 0, 0, 1], fd_p = Some [0, 0, 0]\<rparr>"
  define f2 where "f2 = \<lparr>fd_t = 1, fd_q = [0, 0, 0, 1], fd_p = Some [(1::real), 0, 0]\<rparr>"
  define w1 where "w1 = w\<lparr>frame_start := 1,
     frame_end := max (py_int (fd_t (last [f1, f2]) * frame_rate s)) 1,
     fps := py_int (frame_rate s)\<rparr>"
  define a0 where "a0 = \<lparr>action_name = ''WebXR_Anim_'' @ filepath_stem s,
          location_keys = [], rotation_quaternion_keys = []\<rparr>"
  define w2 where "w2 = update_object camera (prepare_camera s) w1"
  define b where "b = \<lparr>initial_pos = fst (initial_pose s h (objects w1 ! camera)),
      initial_rot = snd (initial_pose s h (objects w1 ! camera)),
      q0 = Quaternion 1 0 0 0, p0 = Vector 0 0 0\<rparr>"
  have len2: "camera < length (objects w2)"
    using c by (simp add: w2_def w1_def update_object_def)
  have an2: "animation_data (objects w2 ! camera) = Some (Some a0)"
    using c by (simp add: w2_def w1_def update_object_def prepare_camera_def a0_def)
  obtain r1 where fp1: "frame_pose s b f1 = Inr (1, Vector 0 0 0, r1)"
    by (cases "coordinate_system self")
       (simp_all add: frame_pose_def parse_q_def parse_p_def frame_number_def import_pose_def
          import_convert_def import_scale_def vec_imul_def s_def f1_def py_int_def)
  obtain r2 where fp2: "frame_pose s b f2 = Inr (31, Vector 1 0 0, r2)"
    by (cases "coordinate_system self")
       (simp_all add: frame_pose_def parse_q_def parse_p_def frame_number_def import_pose_def
          import_convert_def import_scale_def vec_imul_def s_def f2_def py_int_def)
  from write_keyframe_ok [OF h len2 an2, of 1 "Vector 0 0 0" r1] obtain w3 where
    wk1: "write_keyframe h camera (1, Vector 0 0 0, r1) w2 = (None, w3)" and
    len3: "length (objects w3) = length (objects w2)" and
    an3: "animation_data (objects w3 ! camera) =
            Some (Some (a0\<lparr>location_keys := [new_key h 1 (Vector 0 0 0)],
                          rotation_quaternion_keys := [new_key h 1 r1]\<rparr>))"
    by (auto simp: a0_def)
  from len2 len3 have c3: "camera < length (objects w3)" by simp
  from write_keyframe_ok [OF h c3 an3, of 31 "Vector 1 0 0" r2] obtain w4 where
    wk2: "write_keyframe h camera (31, Vector 1 0 0, r2) w3 = (None, w4)" and
    len4: "length (objects w4) = length (objects w3)" and
    an4: "animation_data (objects w4 ! camera) =
            Some (Some (a0\<lparr>location_keys :=
                            [new_key h 1 (Vector 0 0 0), new_key h 31 (Vector 1 0 0)],
                          rotation_quaternion_keys := [new_key h 1 r1, new_key h 31 r2]\<rparr>))"
    by (auto simp: a0_def new_key_def)
  from c3 len4 have c4: "camera < length (objects w4)" by simp
  have loop: "import_frames s h camera b [f1, f2] w2 = (None, w4)"
    by (simp add: fp1 fp2 wk1 wk2 and_then_def)
  define w5 where "w5 = update_object camera set_interpolation w4"
  have c5: "camera < length (objects w5)" using c4 by (simp add: w5_def update_object_def)
  have an5: "animation_data (objects w5 ! camera) =
            Some (Some (a0\<lparr>location_keys :=
                 [set_bezier (new_key h 1 (Vector 0 0 0)), set_bezier (new_key h 31 (Vector 1 0 0))],
               rotation_quaternion_keys :=
                 [set_bezier (new_key h 1 r1), set_bezier (new_key h 31 r2)]\<rparr>))"
    using c4 an4 by (simp add: w5_def update_object_def set_interpolation_def)
  from frame_set_ok [OF h, of 1 w5] obtain w6 where
    fs: "frame_set h 1 w5 = (None, w6)" and
    m6: "map animation_data (objects w6) = map animation_data (objects w5)" by blast
  from m6 have len6: "length (objects w6) = length (objects w5)" by (rule map_eq_imp_length_eq)
  from m6 c5 len6 have "animation_data (objects w6 ! camera) = animation_data (objects w5 ! camera)"
    by (metis nth_map)
  with an5 have an6: "animation_data (objects w6 ! camera) =
            Some (Some (a0\<lparr>location_keys :=
                 [set_bezier (new_key h 1 (Vector 0 0 0)), set_bezier (new_key h 31 (Vector 1 0 0))],
               rotation_quaternion_keys :=
                 [set_bezier (new_key h 1 r1), set_bezier (new_key h 31 r2)]\<rparr>))" by simp
  define w7 where "w7 = update_object camera
     (store_metadata s (fd_t (last [f1, f2])) (length [f1, f2]) metadata) w6"
  have c6: "camera < length (objects w6)" using c5 len6 by simp
  have an7: "animation_data (objects w7 ! camera) = animation_data (objects w6 ! camera)"
    using c6 by (simp add: w7_def update_object_def store_metadata_def Let_def
         split: option.splits)
  have pq: "parse_q (hd [f1, f2]) = Inr (Quaternion 1 0 0 0)"
    by (simp add: parse_q_def f1_def)
  have pp: "parse_p0 (hd [f1, f2]) = Inr (Vector 0 0 0)"
    by (simp add: parse_p0_def f1_def)
  have run: "import_animation s h camera [f1, f2] metadata w = (None, w7)"
    unfolding import_animation_def Let_def w1_def [symmetric] w2_def [symmetric] pq pp
    by (simp add: b_def [symmetric] loop and_then_def w5_def [symmetric] fs w7_def
          del: import_frames.simps)
  have keys: "map (\<lambda>k. (co_x k, co_value k)) (location_keys (the_action (objects w7 ! camera))) =
                [(1, Vector 0 0 0), (31, Vector 1 0 0)] \<and>
              map co_x (rotation_quaternion_keys (the_action (objects w7 ! camera))) = [1, 31]"
    by (simp add: the_action_def an7 an6 set_bezier_def new_key_def)
  from run keys have "import_animation s h camera [f1, f2] metadata w = (None, w7) \<and>
     map (\<lambda>k. (co_x k, co_value k)) (location_keys (the_action (objects w7 ! camera))) =
                [(1, Vector 0 0 0), (31, Vector 1 0 0)] \<and>
              map co_x (rotation_quaternion_keys (the_action (objects w7 ! camera))) = [1, 31]"
    by (rule conjI)
  then show ?thesis unfolding s_def f1_def f2_def by (rule exI)
qed

theorem import_two_frame_clip_witness:
  "host_never_raises still_host \<and> (0::nat) < length (objects one_camera_world) \<and>
   (\<exists>w'. import_animation
            (default_importer\<lparr>frame_rate := 30, scale_factor := 1, apply_deltas := False\<rparr>)
            still_host 0
            [\<lparr>fd_t = 0, fd_q = [0, 0, 0, 1], fd_p = Some [0, 0, 0]\<rparr>,
             \<lparr>fd_t = 1, fd_q = [0, 0, 0, 1], fd_p = Some [1, 0, 0]\<rparr>] no_metadata
            one_camera_world = (None, w') \<and>
          map (\<lambda>k. (co_x k, co_value k)) (location_keys (the_action (objects w' ! 0))) =
            [(1, Vector 0 0 0), (31, Vector 1 0 0)] \<and>
          map co_x (rotation_quaternion_keys (the_action (objects w' ! 0))) = [1, 31])"
proof -
  have c: "(0::nat) < length (objects one_camera_world)"
    by (simp add: one_camera_world_def)
  from import_two_frame_clip [OF still_host_never_raises c, of default_importer no_metadata]
    still_host_never_raises c
  show ?thesis by blast
qed

subsection \<open>The whole import of a clip in the wire format\<close>

lemma wire_parse:
  assumes "wire_frame fd"
  shows "parse_q fd = Inr (wire_rotation fd)" and "parse_p fd = Inr (wire_position fd)"
    and "parse_p0 fd = Inr (wire_position fd)"
  using assms
  by (auto simp: wire_frame_def parse_q_def parse_p_def parse_p0_def wire_rotation_def
        wire_position_def Let_def split: option.splits)

lemma frame_pose_wire:
  assumes "wire_frame fd"
  shows "frame_pose self b fd =
           Inr (frame_number self (fd_t fd),
                import_pose self b (wire_position fd) (wire_rotation fd))"
  by (simp add: frame_pose_def wire_parse [OF assms])

lemma import_frames_ok:
  assumes h: "host_never_raises h"
  shows "\<forall>fd \<in> set fds. wire_frame fd \<Longrightarrow> c < length (objects w) \<Longrightarrow>
         animation_data (objects w ! c) = Some (Some a) \<Longrightarrow>
         \<exists>w'. import_frames self h c b fds w = (None, w') \<and>
              length (objects w') = length (objects w) \<and>
              animation_data (objects w' ! c) =
                Some (Some (a\<lparr>location_keys :=
                     foldl (\<lambda>ks fd. insert_key (new_key h (frame_number self (fd_t fd))
                              (fst (import_pose self b (wire_position fd) (wire_rotation fd)))) ks)
                       (location_keys a) fds,
                   rotation_quaternion_keys :=
                     foldl (\<lambda>ks fd. insert_key (new_key h (frame_number self (fd_t fd))
                              (snd (import_pose self b (wire_position fd) (wire_rotation fd)))) ks)
                       (rotation_quaternion_keys a) fds\<rparr>))"
proof (induction fds arbitrary: w a)
  case Nil
  then show ?case by simp
next
  case (Cons fd fds)
  from Cons.prems(1) have wf: "wire_frame fd" and wfs: "\<forall>fd \<in> set fds. wire_frame fd"
    by simp_all
  obtain v r where ip: "import_pose self b (wire_position fd) (wire_rotation fd) = (v, r)"
    by (cases "import_pose self b (wire_position fd) (wire_rotation fd)")
  define n where "n = frame_number self (fd_t fd)"
  define a1 where "a1 = a\<lparr>location_keys := insert_key (new_key h n v) (location_keys a),
     rotation_quaternion_keys := insert_key (new_key h n r) (rotation_quaternion_keys a)\<rparr>"
  from write_keyframe_ok [OF h Cons.prems(2) Cons.prems(3), of n v r] obtain w1 where
    wk: "write_keyframe h c (n, v, r) w = (None, w1)" and
    len1: "length (objects w1) = length (objects w)" and
    an1: "animation_data (objects w1 ! c) = Some (Some a1)"
    unfolding a1_def by blast
  from Cons.prems(2) len1 have c1: "c < length (objects w1)" by simp
  from Cons.IH [OF wfs c1 an1] obtain w' where
    rest: "import_frames self h c b fds w1 = (None, w')" and
    len': "length (objects w') = length (objects w1)" and
    an': "animation_data (objects w' ! c) =
            Some (Some (a1\<lparr>location_keys :=
                     foldl (\<lambda>ks fd. insert_key (new_key h (frame_number self (fd_t fd))
                              (fst (import_pose self b (wire_position fd) (wire_rotation fd)))) ks)
                       (location_keys a1) fds,
                   rotation_quaternion_keys :=
                     foldl (\<lambda>ks fd. insert_key (new_key h (frame_number self (fd_t fd))
                              (snd (import_pose self b (wire_position fd) (wire_rotation fd)))) ks)
                       (rotation_quaternion_keys a1) fds\<rparr>))"
    by blast
  have run: "import_frames self h c b (fd # fds) w = (None, w')"
    by (simp add: frame_pose_wire [OF wf] ip n_def [symmetric] wk and_then_def rest)
  show ?case
    using run len' len1 an'
    by (simp add: a1_def ip n_def)
qed

lemma import_animation_ok:
  fixes self :: importer and h :: "'e host" and w :: "'e world"
  assumes h: "host_never_raises h" and c: "camera < length (objects w)"
    and ne: "frames \<noteq> []" and wf: "\<forall>fd \<in> set frames. wire_frame fd"
  defines "b \<equiv> \<lparr>initial_pos = fst (initial_pose self h (objects w ! camera)),
                 initial_rot = snd (initial_pose self h (objects w ! camera)),
                 q0 = wire_rotation (hd frames), p0 = wire_position (hd frames)\<rparr>"
  shows "\<exists>w'. import_animation self h camera frames metadata w = (None, w') \<and>
          location_keys (the_action (objects w' ! camera)) =
            keyed_track h self
              (\<lambda>fd. fst (import_pose self b (wire_position fd) (wire_rotation fd))) frames \<and>
          rotation_quaternion_keys (the_action (objects w' ! camera)) =
            keyed_track h self
              (\<lambda>fd. snd (import_pose self b (wire_position fd) (wire_rotation fd))) frames"
proof -
  define w1 where "w1 = w\<lparr>frame_start := 1,
     frame_end := max (py_int (fd_t (last frames) * frame_rate self)) 1,
     fps := py_int (frame_rate self)\<rparr>"
  define a0 where "a0 = \<lparr>action_name = ''WebXR_Anim_'' @ filepath_stem self,
          location_keys = [], rotation_quaternion_keys = []\<rparr>"
  define w2 where "w2 = update_object camera (prepare_camera self) w1"
  have o1: "objects w1 = objects w" by (simp add: w1_def)
  have c2: "camera < length (objects w2)"
    using c by (simp add: w2_def w1_def update_object_def)
  have an2: "animation_data (objects w2 ! camera) = Some (Some a0)"
    using c by (simp add: w2_def w1_def update_object_def prepare_camera_def a0_def)
  from ne wf have wf0: "wire_frame (hd frames)" by simp
  from import_frames_ok [OF h wf c2 an2, of self b] obtain w3 where
    loop: "import_frames self h camera b frames w2 = (None, w3)" and
    len3: "length (objects w3) = length (objects w2)" and
    an3: "animation_data (objects w3 ! camera) =
            Some (Some (a0\<lparr>location_keys :=
                     foldl (\<lambda>ks fd. insert_key (new_key h (frame_number self (fd_t fd))
                              (fst (import_pose self b (wire_position fd) (wire_rotation fd)))) ks)
                       [] frames,
                   rotation_quaternion_keys :=
                     foldl (\<lambda>ks fd. insert_key (new_key h (frame_number self (fd_t fd))
                              (snd (import_pose self b (wire_position fd) (wire_rotation fd)))) ks)
                       [] frames\<rparr>))"
    by (auto simp: a0_def)
  from c2 len3 have c3: "camera < length (objects w3)" by simp
  define w5 where "w5 = update_object camera set_interpolation w3"
  have c5: "camera < length (objects w5)" using c3 by (simp add: w5_def update_object_def)
  have an5: "animation_data (objects w5 ! camera) =
            Some (Some (a0\<lparr>location_keys := keyed_track h self
                (\<lambda>fd. fst (import_pose self b (wire_position fd) (wire_rotation fd))) frames,
               rotation_quaternion_keys := keyed_track h self
                (\<lambda>fd. snd (import_pose self b (wire_position fd) (wire_rotation fd))) frames\<rparr>))"
    using c3 an3 by (simp add: w5_def update_object_def set_interpolation_def keyed_track_def)
  from frame_set_ok [OF h, of 1 w5] obtain w6 where
    fs: "frame_set h 1 w5 = (None, w6)" and
    m6: "map animation_data (objects w6) = map animation_data (objects w5)" by blast
  from m6 have len6: "length (objects w6) = length (objects w5)" by (rule map_eq_imp_length_eq)
  from m6 c5 len6 have "animation_data (objects w6 ! camera) = animation_data (objects w5 ! camera)"
    by (metis nth_map)
  with an5 have an6: "animation_data (objects w6 ! camera) =
            Some (Some (a0\<lparr>location_keys := keyed_track h self
                (\<lambda>fd. fst (import_pose self b (wire_position fd) (wire_rotation fd))) frames,
               rotation_quaternion_keys := keyed_track h self
                (\<lambda>fd. snd (import_pose self b (wire_position fd) (wire_rotation fd))) frames\<rparr>))"
    by simp
  define w7 where "w7 = update_object camera
     (store_metadata self (fd_t (last frames)) (length frames) metadata) w6"
  have c6: "camera < length (objects w6)" using c5 len6 by simp
  have an7: "animation_data (objects w7 ! camera) = animation_data (objects w6 ! camera)"
    using c6 by (simp add: w7_def update_object_def store_metadata_def Let_def
         split: option.splits)
  have run: "import_animation self h camera frames metadata w = (None, w7)"
    unfolding import_animation_def Let_def w1_def [symmetric] w2_def [symmetric]
      wire_parse [OF wf0] o1
    using ne
    by (simp add: b_def [symmetric] loop and_then_def w5_def [symmetric] fs w7_def
          del: import_frames.simps)
  have keys: "location_keys (the_action (objects w7 ! camera)) =
            keyed_track h self
              (\<lambda>fd. fst (import_pose self b (wire_position fd) (wire_rotation fd))) frames \<and>
          rotation_quaternion_keys (the_action (objects w7 ! camera)) =
            keyed_track h self
              (\<lambda>fd. snd (import_pose self b (wire_position fd) (wire_rotation fd))) frames"
    by (simp add: the_action_def an7 an6)
  from run keys show ?thesis by blast
qed

lemma import_pose_rebase:
  assumes "apply_deltas self"
  shows "import_pose self b v r =
           spec_rebaseDelta (coordinate_system self) b (converted_pose self v r)"
proof -
  obtain pc qc where c: "import_convert (coordinate_system self) v r = (pc, qc)"
    by (cases "import_convert (coordinate_system self) v r")
  have cs: "coordinate_system self = WEBXR \<longleftrightarrow> coordinate_system self \<noteq> BLENDER"
    by (cases "coordinate_system self") simp_all
  show ?thesis
    using assms c cs
    by (simp add: import_pose_def converted_pose_def spec_rebaseDelta_def Let_def)
qed

lemma initial_pose_basis:
  assumes "apply_deltas self"
  shows "\<lparr>initial_pos = fst (initial_pose self h ob), initial_rot = snd (initial_pose self h ob),
          q0 = wire_rotation first, p0 = wire_position first\<rparr> = spec_delta_basis h ob first"
  using assms by (simp add: initial_pose_def spec_delta_basis_def)

text \<open>
  C3. With deltas applied, the import of a clip in the wire format into a camera of the
  scene completes (on a host whose evaluation does not raise), and the keyframe it writes
  for every frame has, as its rotation, the initial rotation composed with (the inverse of
  the first frame's rotation composed with the converted rotation) and, as its position,
  the initial position plus \<open>D\<close>, where \<open>D\<close> is the converted position minus the first
  frame's position, rotated by the initial rotation unless the coordinate mode keeps the
  WebXR space; the initial pose is the camera's pose before the import and the first-frame
  pose is that of \<open>frames[0]\<close>. With initial position \<open>(0,0,0)\<close>, identity initial rotation
  and first-frame position \<open>(5,0,0)\<close>, a converted position \<open>(6,0,0)\<close> ends at \<open>(1,0,0)\<close>.
\<close>

theorem delta_rebasing:
  fixes self :: importer and h :: "'e host" and w :: "'e world"
  assumes h: "host_never_raises h" and c: "camera < length (objects w)"
    and ne: "frames \<noteq> []" and wf: "\<forall>fd \<in> set frames. wire_frame fd"
    and ad: "apply_deltas self"
  shows "(\<exists>w'. import_animation self h camera frames metadata w = (None, w') \<and>
            location_keys (the_action (objects w' ! camera)) =
              keyed_track h self
                (\<lambda>fd. fst (spec_rebaseDelta (coordinate_system self)
                              (spec_delta_basis h (objects w ! camera) (hd frames))
                              (converted_pose self (wire_position fd) (wire_rotation fd))))
                frames \<and>
            rotation_quaternion_keys (the_action (objects w' ! camera)) =
              keyed_track h self
                (\<lambda>fd. snd (spec_rebaseDelta (coordinate_system self)
                              (spec_delta_basis h (objects w ! camera) (hd frames))
                              (converted_pose self (wire_position fd) (wire_rotation fd))))
                frames) \<and>
         (\<forall>b fd. wire_frame fd \<longrightarrow>
            frame_pose self b fd =
              Inr (frame_number self (fd_t fd),
                   spec_rebaseDelta (coordinate_system self) b
                     (converted_pose self (wire_position fd) (wire_rotation fd)))) \<and>
         (\<forall>b v r. initial_pos b = Vector 0 0 0 \<and> initial_rot b = Quaternion 1 0 0 0 \<and>
            p0 b = Vector 5 0 0 \<and> fst (converted_pose self v r) = Vector 6 0 0
            \<longrightarrow> fst (import_pose self b v r) = Vector 1 0 0)"
proof -
  have pipeline: "\<exists>w'. import_animation self h camera frames metadata w = (None, w') \<and>
            location_keys (the_action (objects w' ! camera)) =
              keyed_track h self
                (\<lambda>fd. fst (spec_rebaseDelta (coordinate_system self)
                              (spec_delta_basis h (objects w ! camera) (hd frames))
                              (converted_pose self (wire_position fd) (wire_rotation fd))))
                frames \<and>
            rotation_quaternion_keys (the_action (objects w' ! camera)) =
              keyed_track h self
                (\<lambda>fd. snd (spec_rebaseDelta (coordinate_system self)
                              (spec_delta_basis h (objects w ! camera) (hd frames))
                              (converted_pose self (wire_position fd) (wire_rotation fd))))
                frames"
    using import_animation_ok [OF h c ne wf, of self metadata]
    by (simp only: import_pose_rebase [OF ad] initial_pose_basis [OF ad])
  have per_frame: "frame_pose self b fd =
              Inr (frame_number self (fd_t fd),
                   spec_rebaseDelta (coordinate_system self) b
                     (converted_pose self (wire_position fd) (wire_rotation fd)))"
    if "wire_frame fd" for b fd
    by (simp add: frame_pose_wire [OF that] import_pose_rebase [OF ad])
  have ex: "fst (import_pose self b v r) = Vector 1 0 0"
    if "initial_pos b = Vector 0 0 0 \<and> initial_rot b = Quaternion 1 0 0 0 \<and>
        p0 b = Vector 5 0 0 \<and> fst (converted_pose self v r) = Vector 6 0 0" for b v r
    using that
    by (simp add: import_pose_rebase [OF ad] spec_rebaseDelta_def Let_def vec_add_def
          vec_sub_def quat_matmul_vec_def quat_matmul_def)
  from pipeline per_frame ex show ?thesis by blast
qed

theorem delta_rebasing_witness:
  "host_never_raises still_host \<and> (0::nat) < length (objects one_camera_world) \<and>
   [\<lparr>fd_t = 0, fd_q = [0, 0, 0, 1], fd_p = Some [5, 0, 0]\<rparr>,
    \<lparr>fd_t = 1, fd_q = [0, 0, 0, 1], fd_p = Some [6, 0, 0]\<rparr>] \<noteq> [] \<and>
   wire_frame \<lparr>fd_t = 0, fd_q = [0, 0, 0, 1], fd_p = Some [5, 0, 0]\<rparr> \<and>
   wire_frame \<lparr>fd_t = 1, fd_q = [0, 0, 0, 1], fd_p = Some [6, 0, 0]\<rparr> \<and>
   apply_deltas (default_importer\<lparr>apply_deltas := True\<rparr>) \<and>
   (\<exists>w'. import_animation (default_importer\<lparr>apply_deltas := True\<rparr>) still_host 0
            [\<lparr>fd_t = 0, fd_q = [0, 0, 0, 1], fd_p = Some [5, 0, 0]\<rparr>,
             \<lparr>fd_t = 1, fd_q = [0, 0, 0, 1], fd_p = Some [6, 0, 0]\<rparr>] no_metadata
            one_camera_world = (None, w') \<and>
          map (\<lambda>k. (co_x k, co_value k)) (location_keys (the_action (objects w' ! 0))) =
            [(1, Vector 0 0 0), (31, Vector 1 0 0)])"
proof -
  let ?fs = "[\<lparr>fd_t = 0, fd_q = [0, 0, 0, 1], fd_p = Some [5, 0, 0]\<rparr>,
              \<lparr>fd_t = 1, fd_q = [0, 0, 0, 1], fd_p = Some [(6::real), 0, 0]\<rparr>]"
  let ?s = "default_importer\<lparr>apply_deltas := True\<rparr>"
  have c: "(0::nat) < length (objects one_camera_world)"
    by (simp add: one_camera_world_def)
  have ne: "?fs \<noteq> []" by simp
  have wf: "\<forall>fd \<in> set ?fs. wire_frame fd" by (simp add: wire_frame_def)
  have ad: "apply_deltas ?s" by simp
  have track: "map (\<lambda>k. (co_x k, co_value k))
      (keyed_track still_host ?s
         (\<lambda>fd. fst (spec_rebaseDelta (coordinate_system ?s)
                       (spec_delta_basis still_host (objects one_camera_world ! 0) (hd ?fs))
                       (converted_pose ?s (wire_position fd) (wire_rotation fd)))) ?fs)
      = [(1, Vector 0 0 0), (31, Vector 1 0 0)]"
    by (simp add: keyed_track_def new_key_def frame_number_def py_int_def set_bezier_def
          spec_rebaseDelta_def spec_delta_basis_def converted_pose_def import_convert_def
          import_scale_def vec_imul_def wire_position_def wire_rotation_def
          one_camera_world_def new_camera_def still_host_def default_importer_def
          vec_add_def vec_sub_def quat_matmul_vec_def quat_matmul_def Let_def)
  from delta_rebasing [OF still_host_never_raises c ne wf ad, of no_metadata]
  obtain w' where
    "import_animation ?s still_host 0 ?fs no_metadata one_camera_world = (None, w')"
    "location_keys (the_action (objects w' ! 0)) =
       keyed_track still_host ?s
         (\<lambda>fd. fst (spec_rebaseDelta (coordinate_system ?s)
                       (spec_delta_basis still_host (objects one_camera_world ! 0) (hd ?fs))
                       (converted_pose ?s (wire_position fd) (wire_rotation fd)))) ?fs"
    by blast
  with track have "\<exists>w'. import_animation ?s still_host 0 ?fs no_metadata one_camera_world
                       = (None, w') \<and>
          map (\<lambda>k. (co_x k, co_value k)) (location_keys (the_action (objects w' ! 0))) =
            [(1, Vector 0 0 0), (31, Vector 1 0 0)]"
    by auto
  with still_host_never_raises c ne wf ad show ?thesis by simp
qed

text \<open>
  C6. For a clip with at least one frame, whether or not a later step of the import
  raises, the scene's frame range is set to start at 1 and to end at
  \<open>max 1 \<lfloor>duration \<times> frame rate\<rfloor>\<close>, the duration being the last frame's timestamp; the
  end is never below 1, and it is 1 for a zero duration. Such a clip is no error: the
  import of any non-empty clip in the wire format, a single frame and a zero duration
  included, into a camera of the scene raises nothing on a host whose evaluation does not
  raise.
\<close>

theorem import_frame_range:
  assumes "frames \<noteq> []"
  shows "frame_start (snd (import_animation self h camera frames metadata w)) = 1 \<and>
         frame_end (snd (import_animation self h camera frames metadata w)) =
           max 1 \<lfloor>fd_t (last frames) * frame_rate self\<rfloor> \<and>
         1 \<le> frame_end (snd (import_animation self h camera frames metadata w)) \<and>
         (fd_t (last frames) = 0 \<longrightarrow>
            frame_end (snd (import_animation self h camera frames metadata w)) = 1) \<and>
         (host_never_raises h \<and> camera < length (objects w) \<and>
          (\<forall>fd \<in> set frames. wire_frame fd) \<longrightarrow>
            fst (import_animation self h camera frames metadata w) = None)"
proof -
  have range: "frame_start (snd (import_animation self h camera frames metadata w)) = 1 \<and>
         frame_end (snd (import_animation self h camera frames metadata w)) =
           max 1 \<lfloor>fd_t (last frames) * frame_rate self\<rfloor> \<and>
         1 \<le> frame_end (snd (import_animation self h camera frames metadata w))"
    using import_animation_range [OF assms] .
  have zero: "frame_end (snd (import_animation self h camera frames metadata w)) = 1"
    if "fd_t (last frames) = 0"
    using range that by simp
  have ok: "fst (import_animation self h camera frames metadata w) = None"
    if "host_never_raises h \<and> camera < length (objects w) \<and>
        (\<forall>fd \<in> set frames. wire_frame fd)"
  proof -
    from that have h: "host_never_raises h" and c: "camera < length (objects w)"
      and wf: "\<forall>fd \<in> set frames. wire_frame fd" by simp_all
    from import_animation_ok [OF h c assms wf, of self metadata] show ?thesis by auto
  qed
  from range zero ok show ?thesis by blast
qed

theorem import_frame_range_witness:
  "[\<lparr>fd_t = 0, fd_q = [0, 0, 0, 1], fd_p = None\<rparr>] \<noteq> [] \<and>
   fd_t (last [\<lparr>fd_t = 0, fd_q = [0, 0, 0, 1], fd_p = None\<rparr>]) = 0 \<and>
   host_never_raises still_host \<and> (0::nat) < length (objects one_camera_world) \<and>
   wire_frame \<lparr>fd_t = 0, fd_q = [0, 0, 0, 1], fd_p = None\<rparr> \<and>
   fst (import_animation default_importer still_host 0
      [\<lparr>fd_t = 0, fd_q = [0, 0, 0, 1], fd_p = None\<rparr>] no_metadata one_camera_world) = None \<and>
   frame_start (snd (import_animation default_importer still_host 0
      [\<lparr>fd_t = 0, fd_q = [0, 0, 0, 1], fd_p = None\<rparr>] no_metadata one_camera_world)) = 1 \<and>
   frame_end (snd (import_animation default_importer still_host 0
      [\<lparr>fd_t = 0, fd_q = [0, 0, 0, 1], fd_p = None\<rparr>] no_metadata one_camera_world)) = 1"
  using import_frame_range [of "[\<lparr>fd_t = 0, fd_q = [0, 0, 0, 1], fd_p = None\<rparr>]"
      default_importer still_host 0 no_metadata one_camera_world]
    still_host_never_raises
  by (simp add: wire_frame_def one_camera_world_def)

subsection \<open>Selecting the frames to export\<close>

lemma count_below:
  fixes d s :: int
  assumes "0 < s"
  shows "int k < (d + s - 1) div s \<longleftrightarrow> int k * s < d"
proof
  assume "int k < (d + s - 1) div s"
  then have "int k + 1 \<le> (d + s - 1) div s" by simp
  then have "(int k + 1) * s \<le> (d + s - 1) div s * s"
    using assms by (simp add: mult_right_mono)
  also have "\<dots> \<le> d + s - 1"
    using pos_mod_sign [OF assms, of "d + s - 1"] div_mult_mod_eq [of "d + s - 1" s]
    by linarith
  finally show "int k * s < d" by (simp add: algebra_simps)
next
  assume "int k * s < d"
  then have "(int k + 1) * s \<le> d + s - 1" by (simp add: algebra_simps)
  then have "(int k + 1) * s div s \<le> (d + s - 1) div s"
    using assms by (intro zdiv_mono1)
  with assms show "int k < (d + s - 1) div s" by simp
qed

lemma affine_range_set:
  fixes a c s :: int
  assumes "0 < s"
  shows "set (map (\<lambda>k. a + int k * s) [0 ..< nat ((c - a + s - 1) div s)]) =
           {f. a \<le> f \<and> f < c \<and> (f - a) mod s = 0}"
proof (intro set_eqI iffI)
  fix f
  assume "f \<in> set (map (\<lambda>k. a + int k * s) [0 ..< nat ((c - a + s - 1) div s)])"
  then obtain k where k: "k < nat ((c - a + s - 1) div s)" and f: "f = a + int k * s"
    by auto
  from k have "int k < (c - a + s - 1) div s" by linarith
  then have "int k * s < c - a" using count_below [OF assms] by blast
  moreover have "0 \<le> int k * s" using assms by simp
  ultimately show "f \<in> {f. a \<le> f \<and> f < c \<and> (f - a) mod s = 0}"
    by (simp add: f)
next
  fix f
  assume "f \<in> {f. a \<le> f \<and> f < c \<and> (f - a) mod s = 0}"
  then have af: "a \<le> f" and fc: "f < c" and m: "(f - a) mod s = 0" by simp_all
  define k where "k = nat ((f - a) div s)"
  have nn: "0 \<le> (f - a) div s" using af assms by (simp add: pos_imp_zdiv_nonneg_iff)
  have ks: "int k * s = f - a"
    using m nn div_mult_mod_eq [of "f - a" s] by (simp add: k_def)
  then have "int k * s < c - a" using fc by simp
  then have "int k < (c - a + s - 1) div s" using count_below [OF assms] by blast
  then have "k < nat ((c - a + s - 1) div s)" by linarith
  moreover have "f = a + int k * s" using ks by simp
  ultimately show "f \<in> set (map (\<lambda>k. a + int k * s) [0 ..< nat ((c - a + s - 1) div s)])"
    by auto
qed

lemma affine_range_sorted:
  fixes a s :: int
  assumes "0 < s"
  shows "sorted_wrt (<) (map (\<lambda>k. a + int k * s) [0 ..< n])"
proof (rule sorted_wrt_map_mono [where R = "(<)"])
  show "sorted_wrt (<) [0 ..< n]" by simp
next
  fix x y :: nat
  assume "x < y"
  then show "a + int x * s < a + int y * s" using assms by simp
qed

lemma range_unit_step: "map (\<lambda>k. a + int k * 1) [0 ..< nat (b + 1 - a + 1 - 1)] = [a..b]"
  by (rule nth_equalityI) simp_all

text \<open>
  C8. Under the custom rate mode with a stride of at least 1, the selected frames are, in
  increasing order and without repetition, exactly the integers from the scene's first
  frame through its last frame that lie a multiple of the stride after the first frame;
  for the range 1 to 10 and stride 3 they are \<open>[1,4,7,10]\<close>. Under the all-frames mode
  they are all the integers of the range.
\<close>

theorem frame_selection:
  assumes "1 \<le> stride"
  shows "(\<exists>fs. get_frames_to_sample (self\<lparr>sample_mode := CUSTOM_RATE, custom_sample_rate := stride\<rparr>)
                 ob w = Inr fs \<and>
               set fs = {f. frame_start w \<le> f \<and> f \<le> frame_end w \<and>
                            (f - frame_start w) mod stride = 0} \<and>
               sorted_wrt (<) fs) \<and>
         get_frames_to_sample (self\<lparr>sample_mode := CUSTOM_RATE, custom_sample_rate := 3\<rparr>) ob
           (w\<lparr>frame_start := 1, frame_end := 10\<rparr>) = Inr [1, 4, 7, 10] \<and>
         get_frames_to_sample (self\<lparr>sample_mode := ALL_FRAMES\<rparr>) ob w =
           Inr [frame_start w .. frame_end w]"
proof -
  from assms have s: "0 < stride" by simp
  have lt: "f < frame_end w + 1 \<longleftrightarrow> f \<le> frame_end w" for f by linarith
  have custom: "\<exists>fs. get_frames_to_sample
                 (self\<lparr>sample_mode := CUSTOM_RATE, custom_sample_rate := stride\<rparr>) ob w = Inr fs \<and>
               set fs = {f. frame_start w \<le> f \<and> f \<le> frame_end w \<and>
                            (f - frame_start w) mod stride = 0} \<and>
               sorted_wrt (<) fs"
    using s affine_range_set [OF s, of "frame_start w" "frame_end w + 1"]
      affine_range_sorted [OF s, of "frame_start w"]
    by (simp add: get_frames_to_sample_def py_range_def lt)
  have ex: "get_frames_to_sample (self\<lparr>sample_mode := CUSTOM_RATE, custom_sample_rate := 3\<rparr>) ob
           (w\<lparr>frame_start := 1, frame_end := 10\<rparr>) = Inr [1, 4, 7, 10]"
    by (simp add: get_frames_to_sample_def py_range_def upt_rec)
  have all: "get_frames_to_sample (self\<lparr>sample_mode := ALL_FRAMES\<rparr>) ob w =
           Inr [frame_start w .. frame_end w]"
    using range_unit_step [of "frame_start w" "frame_end w"]
    by (simp add: get_frames_to_sample_def py_range_def)
  from custom ex all show ?thesis by blast
qed

theorem frame_selection_witness:
  "(1::int) \<le> 3 \<and>
   get_frames_to_sample (default_exporter\<lparr>sample_mode := CUSTOM_RATE, custom_sample_rate := 3\<rparr>)
     (new_camera still_host ''Camera'') (one_camera_world\<lparr>frame_start := 1, frame_end := 10\<rparr>)
     = Inr [1, 4, 7, 10]"
  using frame_selection [of 3 default_exporter "new_camera still_host ''Camera''"
      one_camera_world]
  by simp

subsection \<open>The scene after an export\<close>

lemma refresh_mode:
  "refresh h n ob = Inr ob' \<Longrightarrow> rotation_mode ob' = rotation_mode ob"
  by (auto simp: refresh_def split: option.splits sum.splits if_splits)

lemma refresh_all_modes:
  "refresh_all h n obs = Inr obs' \<Longrightarrow> map rotation_mode obs' = map rotation_mode obs"
proof (induction obs arbitrary: obs')
  case Nil
  then show ?case by simp
next
  case (Cons ob obs)
  then show ?case
    by (auto split: sum.splits dest: refresh_mode)
qed

lemma frame_set_modes:
  "map rotation_mode (objects (snd (frame_set h n w))) = map rotation_mode (objects w)"
  by (auto simp: frame_set_def Let_def split: sum.splits dest: refresh_all_modes)

lemma frame_set_current:
  "frame_current (snd (frame_set h n w)) = n"
  by (simp add: frame_set_def Let_def split: sum.splits)

lemma sample_frame_modes:
  "map rotation_mode (objects (snd (sample_frame self h c fv n w))) =
     map rotation_mode (objects w)"
proof -
  obtain r w1 where fs: "frame_set h n w = (r, w1)" by (cases "frame_set h n w")
  have m: "map rotation_mode (objects w1) = map rotation_mode (objects w)"
    using frame_set_modes [of h n w] by (simp add: fs)
  show ?thesis
    by (cases r)
       (simp_all add: sample_frame_def fs m Let_def split: prod.splits sum.splits)
qed

lemma export_frames_modes:
  "map rotation_mode (objects (snd (export_frames self h c fv ns w))) =
     map rotation_mode (objects w)"
proof (induction ns arbitrary: w)
  case Nil
  show ?case by simp
next
  case (Cons n ns)
  obtain r w1 where sf: "sample_frame self h c fv n w = (r, w1)"
    by (cases "sample_frame self h c fv n w")
  have m1: "map rotation_mode (objects w1) = map rotation_mode (objects w)"
    using sample_frame_modes [of self h c fv n w] by (simp add: sf)
  show ?case
  proof (cases r)
    case (Inl e)
    then show ?thesis by (simp add: sf m1)
  next
    case (Inr f)
    obtain r2 w2 where ef: "export_frames self h c fv ns w1 = (r2, w2)"
      by (cases "export_frames self h c fv ns w1")
    have "map rotation_mode (objects w2) = map rotation_mode (objects w1)"
      using Cons.IH [of w1] by (simp add: ef)
    with m1 Inr show ?thesis by (cases r2) (simp_all add: sf ef)
  qed
qed

lemma update_mode_modes:
  "map rotation_mode (objects (update_object c (\<lambda>ob. ob\<lparr>rotation_mode := m\<rparr>) w)) =
     (map rotation_mode (objects w))[c := m]"
  by (cases "c < length (objects w)") (simp_all add: update_object_def map_update)

lemma export_animation_restores:
  assumes "fst (export_animation self h camera w) = Inr out"
  shows "frame_current (snd (export_animation self h camera w)) = frame_current w \<and>
         map rotation_mode (objects (snd (export_animation self h camera w))) =
           map rotation_mode (objects w)"
proof -
  obtain fs where g: "get_frames_to_sample self (objects w ! camera) w = Inr fs"
    using assms by (cases "get_frames_to_sample self (objects w ! camera) w")
      (simp_all add: export_animation_def)
  define m where "m = rotation_mode (objects w ! camera)"
  define w1 where "w1 = (if m \<noteq> QUATERNION
     then update_object camera (\<lambda>ob. ob\<lparr>rotation_mode := QUATERNION\<rparr>) w else w)"
  obtain r2 w2 where ef: "export_frames self h camera (fps w1) fs w1 = (r2, w2)"
    by (cases "export_frames self h camera (fps w1) fs w1")
  obtain r3 w3 where f3: "frame_set h (frame_current w) w2 = (r3, w3)"
    by (cases "frame_set h (frame_current w) w2")
  from assms obtain xs where r2: "r2 = Inr xs"
    by (cases r2) (simp_all add: export_animation_def g Let_def m_def [symmetric]
         w1_def [symmetric] ef)
  from assms have r3: "r3 = None"
    by (cases r3) (simp_all add: export_animation_def g Let_def m_def [symmetric]
         w1_def [symmetric] ef r2 f3)
  define w4 where "w4 = (if m \<noteq> QUATERNION
     then update_object camera (\<lambda>ob. ob\<lparr>rotation_mode := m\<rparr>) w3 else w3)"
  have res: "snd (export_animation self h camera w) = w4"
    by (simp add: export_animation_def g Let_def m_def [symmetric] w1_def [symmetric] ef r2 f3
          r3 w4_def)
  have m2: "map rotation_mode (objects w2) = map rotation_mode (objects w1)"
    using export_frames_modes [of self h camera "fps w1" fs w1] by (simp add: ef)
  have m3: "map rotation_mode (objects w3) = map rotation_mode (objects w2)"
    using frame_set_modes [of h "frame_current w" w2] by (simp add: f3)
  have c3: "frame_current w3 = frame_current w"
    using frame_set_current [of h "frame_current w" w2] by (simp add: f3)
  have c4: "frame_current w4 = frame_current w"
    by (simp add: w4_def c3 update_object_def)
  have m4: "map rotation_mode (objects w4) = map rotation_mode (objects w)"
  proof (cases "m = QUATERNION")
    case True
    then show ?thesis by (simp add: w4_def w1_def m3 m2)
  next
    case False
    have "(map rotation_mode (objects w))[camera := m] = map rotation_mode (objects w)"
      by (cases "camera < length (objects w)")
         (simp_all add: m_def list_update_same_conv list_update_beyond)
    with False show ?thesis
      by (simp add: w4_def w1_def update_mode_modes m3 m2)
  qed
  from c4 m4 show ?thesis by (simp add: res)
qed

text \<open>
  The path beside the failing one: an export that finishes leaves the playback position
  and the rotation mode of every object, the exported camera included, as they were
  before it started.
\<close>

lemma export_restores_state_on_success:
  assumes "fst (execute_export self h write_error w) = FINISHED"
  shows "frame_current (snd (snd (snd (execute_export self h write_error w)))) = frame_current w \<and>
         map rotation_mode (objects (snd (snd (snd (execute_export self h write_error w))))) =
           map rotation_mode (objects w)"
proof -
  from assms obtain camera where gc: "get_camera self w = Some camera"
    by (cases "get_camera self w") (simp_all add: execute_export_def)
  from assms obtain a where an: "animation_data (objects w ! camera) = Some (Some a)"
    by (auto simp: execute_export_def gc split: option.splits)
  obtain r w1 where ea: "export_animation self h camera w = (r, w1)"
    by (cases "export_animation self h camera w")
  from assms obtain out where r: "r = Inr out"
    by (cases r) (simp_all add: execute_export_def gc an ea)
  have w: "snd (snd (snd (execute_export self h write_error w))) = w1"
    by (simp add: execute_export_def gc an ea r split: option.splits)
  from export_animation_restores [of self h camera w out] show ?thesis
    by (simp add: w ea r)
qed

lemma export_restores_state_on_success_example:
  "fst (execute_export (default_exporter\<lparr>coordinate_system := BLENDER\<rparr>) still_host None
          animated_world) = FINISHED \<and>
   frame_current (snd (snd (snd (execute_export (default_exporter\<lparr>coordinate_system := BLENDER\<rparr>)
      still_host None animated_world)))) = 5 \<and>
   map rotation_mode (objects (snd (snd (snd (execute_export
      (default_exporter\<lparr>coordinate_system := BLENDER\<rparr>) still_host None animated_world))))) = [XYZ]"
proof -
  have fin: "fst (execute_export (default_exporter\<lparr>coordinate_system := BLENDER\<rparr>) still_host None
          animated_world) = FINISHED"
    by (simp add: execute_export_def get_camera_def default_exporter_def animated_world_def
          new_camera_def export_animation_def get_frames_to_sample_def py_range_def upt_rec
          update_object_def sample_frame_def frame_set_def refresh_def still_host_def
          export_convert_def export_scale_def vec_idiv_def Let_def)
  from export_restores_state_on_success [OF fin] fin show ?thesis
    by (simp add: animated_world_def new_camera_def)
qed

text \<open>
  C2. The playback position and the camera's rotation mode are to be restored when frame
  sampling raises as well, and the export saves both for that. It does not restore them
  on that path, for want of a handler around the loop: for a camera
  in rotation mode \<open>XYZ\<close> with keyframes at frames 1 and 3000000000, exported keyframe by
  keyframe from a scene at frame 5 on a host that rejects a frame outside the range of a
  C \<open>int\<close>, the export is cancelled with the error reported, the playback position is not
  back at frame 5 and the camera's rotation mode is left at \<open>QUATERNION\<close>.
\<close>

theorem export_out_of_range_keyframe_not_restored:
  "fst (execute_export (default_exporter\<lparr>sample_mode := KEYFRAMES\<rparr>) int_range_host None
          far_keyed_world) = CANCELLED \<and>
   fst (snd (execute_export (default_exporter\<lparr>sample_mode := KEYFRAMES\<rparr>) int_range_host None
          far_keyed_world)) = (ERROR, Export_failed ValueError) \<and>
   frame_current far_keyed_world = 5 \<and>
   frame_current (snd (snd (snd (execute_export (default_exporter\<lparr>sample_mode := KEYFRAMES\<rparr>)
      int_range_host None far_keyed_world)))) \<noteq> 5 \<and>
   rotation_mode (objects far_keyed_world ! 0) = XYZ \<and>
   rotation_mode (objects (snd (snd (snd (execute_export
      (default_exporter\<lparr>sample_mode := KEYFRAMES\<rparr>) int_range_host None far_keyed_world)))) ! 0)
     = QUATERNION"
  by (simp add: execute_export_def get_camera_def default_exporter_def far_keyed_world_def
        new_camera_def export_animation_def get_frames_to_sample_def py_int_def
        update_object_def sample_frame_def frame_set_def refresh_def still_host_def
        int_range_host_def new_key_def export_convert_def export_scale_def vec_idiv_def
        quat_matmul_def Let_def)

end
